theory Spec2Isabelle
  imports Complex_Main
begin

section \<open>Exceptions and effectful computations\<close>

text \<open>
  Python exceptions are values. \<open>Trainer.fit\<close> tells three classes apart with its
  handlers \<open>except StopFitIteration\<close>, \<open>except Exception\<close> and neither of the two:
  the graceful-stop signal, every other instance of \<open>Exception\<close>, and an instance of
  \<open>BaseException\<close> that is not an \<open>Exception\<close> (\<open>KeyboardInterrupt\<close>, \<open>SystemExit\<close>).
\<close>

datatype exn =
    StopFitIteration string
  | ZeroDivisionError
  | KeyError string
  | TypeError string
  | OtherException string
  | NonException string

fun is_Exception :: "exn \<Rightarrow> bool" where
  "is_Exception (NonException _) = False"
| "is_Exception _ = True"

fun is_stop :: "exn \<Rightarrow> bool" where
  "is_stop (StopFitIteration _) = True"
| "is_stop _ = False"

text \<open>
  A computation takes the state and gives a result (\<open>Inl\<close> an exception that was raised,
  \<open>Inr\<close> a returned value), the state it leaves behind, which is there on a raise as
  well, and the list of the events it went through, in order.
\<close>

type_synonym ('s, 'ev, 'a) prog = "'s \<Rightarrow> (exn + 'a) \<times> 's \<times> 'ev list"

definition returnp :: "'a \<Rightarrow> ('s, 'ev, 'a) prog" where
  "returnp x = (\<lambda>s. (Inr x, s, []))"

definition raisep :: "exn \<Rightarrow> ('s, 'ev, 'a) prog" where
  "raisep e = (\<lambda>s. (Inl e, s, []))"

definition bindp :: "('s, 'ev, 'a) prog \<Rightarrow> ('a \<Rightarrow> ('s, 'ev, 'b) prog) \<Rightarrow> ('s, 'ev, 'b) prog" where
  "bindp m f = (\<lambda>s. case m s of
       (Inl e, s1, t1) \<Rightarrow> (Inl e, s1, t1)
     | (Inr x, s1, t1) \<Rightarrow> (case f x s1 of (r, s2, t2) \<Rightarrow> (r, s2, t1 @ t2)))"

definition thenp :: "('s, 'ev, 'a) prog \<Rightarrow> ('s, 'ev, 'b) prog \<Rightarrow> ('s, 'ev, 'b) prog" where
  "thenp m n = bindp m (\<lambda>_. n)"

text \<open>\<open>try: m except e: h e\<close>; an exception raised by the handler itself is not caught.\<close>

definition catchp :: "('s, 'ev, 'a) prog \<Rightarrow> (exn \<Rightarrow> ('s, 'ev, 'a) prog) \<Rightarrow> ('s, 'ev, 'a) prog" where
  "catchp m h = (\<lambda>s. case m s of
       (Inl e, s1, t1) \<Rightarrow> (case h e s1 of (r, s2, t2) \<Rightarrow> (r, s2, t1 @ t2))
     | (Inr x, s1, t1) \<Rightarrow> (Inr x, s1, t1))"

text \<open>\<open>try: m finally: fin\<close> for a \<open>fin\<close> that does not raise: it runs on every exit of \<open>m\<close>.\<close>

definition finallyp :: "('s, 'ev, 'a) prog \<Rightarrow> ('s \<Rightarrow> 's \<times> 'ev list) \<Rightarrow> ('s, 'ev, 'a) prog" where
  "finallyp m fin = (\<lambda>s. case m s of
       (r, s1, t1) \<Rightarrow> (case fin s1 of (s2, t2) \<Rightarrow> (r, s2, t1 @ t2)))"

section \<open>Data model\<close>

text \<open>
  Modelled from the spec: the class \<open>TrackedValue\<close> is not among the sources; the spec gives
  it as \<open>{ current_value: scalar, epoch_last_updated: integer }\<close>, and \<open>Trainer.__train\<close>
  reads \<open>current_value\<close>.
\<close>

record 'v tracked_value =
  current_value :: 'v
  epoch_last_updated :: int

text \<open>
  Modelled from the spec: the class \<open>FitOutput\<close> is not among the sources; the spec gives it
  two mappings from names to tracked values, empty until \<open>fit\<close> populates them, and an
  optional captured exception. Its reference to the trainer's value store is an alias of
  an object that lives in the collaborators' state, so it holds no data of its own here.
\<close>

record 'v fit_output =
  train_tracked_values :: "string \<rightharpoonup> 'v tracked_value"
  val_tracked_values :: "string \<rightharpoonup> 'v tracked_value"
  exception :: "exn option"

definition FitOutput :: "'v fit_output" where
  "FitOutput = \<lparr>train_tracked_values = Map.empty, val_tracked_values = Map.empty, exception = None\<rparr>"

definition update_train_tracked_values ::
    "'v fit_output \<Rightarrow> (string \<rightharpoonup> 'v tracked_value) \<Rightarrow> 'v fit_output" where
  "update_train_tracked_values out tv = out\<lparr>train_tracked_values := train_tracked_values out ++ tv\<rparr>"

definition update_val_tracked_values ::
    "'v fit_output \<Rightarrow> (string \<rightharpoonup> 'v tracked_value) \<Rightarrow> 'v fit_output" where
  "update_val_tracked_values out tv = out\<lparr>val_tracked_values := val_tracked_values out ++ tv\<rparr>"

text \<open>The events of the callback protocol, each with the arguments the trainer passes.\<close>

datatype ('o, 'v) cb_event =
    OnFitStart int
  | OnFitEnd int "'v fit_output"
  | OnEpochStart
  | OnEpochEnd
  | OnEpochTrainStart nat
  | OnTrainBatchStart nat
  | OnTrainBatchEnd nat 'o "string \<rightharpoonup> 'v"
  | OnEpochTrainEnd "string \<rightharpoonup> 'v"
  | OnEpochValidationStart
  | OnEpochValidationEnd "string \<rightharpoonup> 'v"
  | OnException exn

text \<open>
  What the trainer does to its collaborators, in the order it does it: every call is one
  event, holding the arguments of the call and how the call ended.
\<close>

datatype ('b, 'o, 'v, 'd) event =
    ModelTo "exn + unit"
  | ModelTrain bool
  | ModelEval
  | Callback "('o, 'v) cb_event" "exn + unit"
  | BatchUpdate nat 'b "exn + 'o"
  | NoGradEnter
  | NoGradExit
  | TrainEpochStart int "exn + unit"
  | TrainEvaluateBatch 'o "exn + (string \<rightharpoonup> 'v)"
  | TrainEpochEnd int "exn + unit"
  | TrainGetTrackedValues "exn + (string \<rightharpoonup> 'v tracked_value)"
  | ValEpochStart int "exn + unit"
  | ValEvaluate "exn + (string \<rightharpoonup> 'v)"
  | ValEpochEnd int "exn + unit"
  | ValGetTrackedValues "exn + (string \<rightharpoonup> 'v tracked_value)"
  | LoadStateDict string 'd "exn + unit"

text \<open>
  The state a trainer works on: the \<open>training\<close> flag of its model (its mode), the epoch
  counter, and \<open>world\<close>, the state of everything the trainer only reaches through calls:
  the model's parameters, the optimizer, the two evaluators, the value store and the
  callback.
\<close>

record 'w trainer =
  model_training :: bool
  epoch :: int
  world :: 'w

text \<open>
  The collaborators are parameters. Each is a function on what the trainer shares with
  them, the mode of the model and \<open>world\<close>: it returns or raises, and leaves a mode and a
  world behind either way, so a callback or an evaluator that is handed the model can
  call \<open>model.eval()\<close> or \<open>model.train()\<close> on it. \<open>batch_update\<close> is the abstract method
  of \<open>Trainer\<close>; it and the callback are handed the trainer and read its epoch, their
  first argument here. The epoch counter is the trainer's own field, which \<open>fit\<close> and
  \<open>load_state_dict\<close> alone set. \<open>save_state c name\<close> and \<open>load_state c name\<close> are
  \<open>state_dict\<close> and \<open>load_state_dict\<close> of the collaborator that \<open>Trainer.state_dict\<close> files
  under the key \<open>name\<close>; the mode of the model is no part of a serialized state.
\<close>

type_synonym ('w, 'a) call = "bool \<times> 'w \<Rightarrow> (exn + 'a) \<times> bool \<times> 'w"

record ('w, 'b, 'o, 'v, 'd) collaborators =
  model_to :: "('w, unit) call"
  batch_update :: "int \<Rightarrow> nat \<Rightarrow> 'b \<Rightarrow> ('w, 'o) call"
  callback :: "int \<Rightarrow> ('o, 'v) cb_event \<Rightarrow> ('w, unit) call"
  train_epoch_start :: "int \<Rightarrow> ('w, unit) call"
  train_evaluate_batch :: "'o \<Rightarrow> ('w, string \<rightharpoonup> 'v) call"
  train_epoch_end :: "int \<Rightarrow> ('w, unit) call"
  train_get_tracked_values :: "('w, string \<rightharpoonup> 'v tracked_value) call"
  val_epoch_start :: "int \<Rightarrow> ('w, unit) call"
  val_evaluate :: "('w, string \<rightharpoonup> 'v) call"
  val_epoch_end :: "int \<Rightarrow> ('w, unit) call"
  val_get_tracked_values :: "('w, string \<rightharpoonup> 'v tracked_value) call"
  save_state :: "string \<Rightarrow> 'w \<Rightarrow> 'd"
  load_state :: "string \<Rightarrow> 'd \<Rightarrow> ('w, unit) call"

type_synonym ('w, 'b, 'o, 'v, 'd, 'a) tprog = "('w trainer, ('b, 'o, 'v, 'd) event, 'a) prog"

section \<open>The trainer\<close>

definition invoke ::
    "((exn + 'a) \<Rightarrow> ('b, 'o, 'v, 'd) event) \<Rightarrow> ('w, 'a) call \<Rightarrow> ('w, 'b, 'o, 'v, 'd, 'a) tprog" where
  "invoke ev h = (\<lambda>s. case h (model_training s, world s) of
       (r, b, w) \<Rightarrow> (r, s\<lparr>model_training := b, world := w\<rparr>, [ev r]))"

definition emit ::
    "('w, 'b, 'o, 'v, 'd) collaborators \<Rightarrow> ('o, 'v) cb_event \<Rightarrow> ('w, 'b, 'o, 'v, 'd, unit) tprog" where
  "emit c e = (\<lambda>s. invoke (Callback e) (callback c (epoch s) e) s)"

text \<open>\<open>model.train(mode)\<close> and \<open>model.eval()\<close> set the flag.\<close>

definition model_train :: "bool \<Rightarrow> 'w trainer \<Rightarrow> 'w trainer \<times> ('b, 'o, 'v, 'd) event list" where
  "model_train mode s = (s\<lparr>model_training := mode\<rparr>, [ModelTrain mode])"

definition model_eval :: "'w trainer \<Rightarrow> 'w trainer \<times> ('b, 'o, 'v, 'd) event list" where
  "model_eval s = (s\<lparr>model_training := False\<rparr>, [ModelEval])"

definition stmt :: "('s \<Rightarrow> 's \<times> 'ev list) \<Rightarrow> ('s, 'ev, unit) prog" where
  "stmt f = (\<lambda>s. case f s of (s1, t1) \<Rightarrow> (Inr (), s1, t1))"

text \<open>\<open>with torch.no_grad(): m\<close>: the context is left on a raise as well.\<close>

definition no_grad :: "('s, ('b, 'o, 'v, 'd) event, 'a) prog \<Rightarrow> ('s, ('b, 'o, 'v, 'd) event, 'a) prog" where
  "no_grad m = (\<lambda>s. case m s of (r, s1, t1) \<Rightarrow> (r, s1, [NoGradEnter] @ t1 @ [NoGradExit]))"

text \<open>The body of \<open>for batch_num, batch in enumerate(data_loader)\<close> for one batch.\<close>

definition train_batch ::
    "('w, 'b, 'o, 'v, 'd) collaborators \<Rightarrow> nat \<Rightarrow> 'b \<Rightarrow> ('w, 'b, 'o, 'v, 'd, unit) tprog" where
  "train_batch c batch_num batch =
     thenp (emit c (OnTrainBatchStart batch_num))
    (bindp (\<lambda>s. invoke (BatchUpdate batch_num batch) (batch_update c (epoch s) batch_num batch) s)
      (\<lambda>output.
     bindp (no_grad (\<lambda>s. invoke (TrainEvaluateBatch output) (train_evaluate_batch c output) s))
      (\<lambda>metric_values.
     emit c (OnTrainBatchEnd batch_num output metric_values))))"

primrec train_batches ::
    "('w, 'b, 'o, 'v, 'd) collaborators \<Rightarrow> (nat \<times> 'b) list \<Rightarrow> ('w, 'b, 'o, 'v, 'd, unit) tprog" where
  "train_batches c [] = returnp ()"
| "train_batches c (nb # rest) =
     thenp (train_batch c (fst nb) (snd nb)) (train_batches c rest)"

text \<open>\<open>Trainer.__train\<close>. The data loader is the list of the batches it yields.\<close>

definition train ::
    "('w, 'b, 'o, 'v, 'd) collaborators \<Rightarrow> 'b list \<Rightarrow> ('w, 'b, 'o, 'v, 'd, unit) tprog" where
  "train c data_loader =
     thenp (stmt (model_train True))
    (thenp (emit c (OnEpochTrainStart (length data_loader)))
    (thenp (\<lambda>s. invoke (TrainEpochStart (epoch s)) (train_epoch_start c (epoch s)) s)
    (thenp (train_batches c (enumerate 0 data_loader))
    (thenp (\<lambda>s. invoke (TrainEpochEnd (epoch s)) (train_epoch_end c (epoch s)) s)
    (bindp (invoke TrainGetTrackedValues (train_get_tracked_values c))
      (\<lambda>tracked.
     emit c (OnEpochTrainEnd (\<lambda>name. map_option current_value (tracked name)))))))))"

text \<open>\<open>Trainer.__validate\<close>.\<close>

definition validate ::
    "('w, 'b, 'o, 'v, 'd) collaborators \<Rightarrow> ('w, 'b, 'o, 'v, 'd, unit) tprog" where
  "validate c =
     thenp (stmt model_eval)
    (thenp (emit c OnEpochValidationStart)
    (thenp (\<lambda>s. invoke (ValEpochStart (epoch s)) (val_epoch_start c (epoch s)) s)
    (bindp (no_grad (invoke ValEvaluate (val_evaluate c)))
      (\<lambda>metric_values.
     thenp (\<lambda>s. invoke (ValEpochEnd (epoch s)) (val_epoch_end c (epoch s)) s)
    (emit c (OnEpochValidationEnd metric_values))))))"

text \<open>Python's \<open>a % b\<close> on integers: the sign of the divisor, and a raise on zero.\<close>

definition py_mod :: "int \<Rightarrow> int \<Rightarrow> exn + int" where
  "py_mod a b = (if b = 0 then Inl ZeroDivisionError else Inr (a mod b))"

text \<open>The body of the epoch loop of \<open>fit\<close>.\<close>

definition epoch_body ::
    "('w, 'b, 'o, 'v, 'd) collaborators \<Rightarrow> 'b list \<Rightarrow> int \<Rightarrow> ('w, 'b, 'o, 'v, 'd, unit) tprog" where
  "epoch_body c data_loader validate_every =
     thenp (stmt (\<lambda>s. (s\<lparr>epoch := epoch s + 1\<rparr>, [])))
    (thenp (emit c OnEpochStart)
    (thenp (train c data_loader)
    (bindp (\<lambda>s. (py_mod (epoch s + 1) validate_every, s, []))
      (\<lambda>r.
     thenp (if r = 0 then validate c else returnp ())
    (emit c OnEpochEnd)))))"

text \<open>\<open>for i in range(num_epochs)\<close>, with the number of iterations left.\<close>

primrec epoch_loop ::
    "('w, 'b, 'o, 'v, 'd) collaborators \<Rightarrow> 'b list \<Rightarrow> int \<Rightarrow> nat \<Rightarrow> ('w, 'b, 'o, 'v, 'd, unit) tprog" where
  "epoch_loop c data_loader validate_every 0 = returnp ()"
| "epoch_loop c data_loader validate_every (Suc k) =
     thenp (epoch_body c data_loader validate_every) (epoch_loop c data_loader validate_every k)"

text \<open>The block under \<open>try\<close> in \<open>fit\<close>; \<open>range\<close> of a negative number is empty.\<close>

definition fit_guarded ::
    "('w, 'b, 'o, 'v, 'd) collaborators \<Rightarrow> 'b list \<Rightarrow> int \<Rightarrow> int \<Rightarrow> ('w, 'b, 'o, 'v, 'd, unit) tprog" where
  "fit_guarded c data_loader num_epochs validate_every =
     thenp (invoke ModelTo (model_to c))
    (thenp (emit c (OnFitStart num_epochs))
    (epoch_loop c data_loader validate_every (nat num_epochs)))"

text \<open>The two \<open>except\<close> clauses of \<open>fit\<close>, tried in the order of the source.\<close>

definition fit_handler ::
    "('w, 'b, 'o, 'v, 'd) collaborators \<Rightarrow> 'v fit_output \<Rightarrow> exn \<Rightarrow>
      ('w, 'b, 'o, 'v, 'd, 'v fit_output) tprog" where
  "fit_handler c output e =
     (if is_stop e then thenp (emit c (OnException e)) (returnp (output\<lparr>exception := Some e\<rparr>))
      else if is_Exception e then thenp (emit c (OnException e)) (raisep e)
      else raisep e)"

text \<open>The statements of \<open>fit\<close> after the \<open>try\<close> statement.\<close>

definition fit_finish ::
    "('w, 'b, 'o, 'v, 'd) collaborators \<Rightarrow> int \<Rightarrow> 'v fit_output \<Rightarrow>
      ('w, 'b, 'o, 'v, 'd, 'v fit_output) tprog" where
  "fit_finish c start_epoch output =
     bindp (invoke TrainGetTrackedValues (train_get_tracked_values c))
      (\<lambda>train_tracked.
     bindp (invoke ValGetTrackedValues (val_get_tracked_values c))
      (\<lambda>val_tracked.
     bindp (returnp (update_val_tracked_values
                      (update_train_tracked_values output train_tracked) val_tracked))
      (\<lambda>out.
     thenp (\<lambda>s. emit c (OnFitEnd (epoch s - start_epoch) out) s)
    (returnp out))))"

text \<open>The \<open>try\<close> statement of \<open>fit\<close>, with its \<open>except\<close> clauses and its \<open>finally\<close>.\<close>

definition fit_try ::
    "('w, 'b, 'o, 'v, 'd) collaborators \<Rightarrow> 'b list \<Rightarrow> int \<Rightarrow> int \<Rightarrow> 'v fit_output \<Rightarrow> bool \<Rightarrow>
      ('w, 'b, 'o, 'v, 'd, 'v fit_output) tprog" where
  "fit_try c data_loader num_epochs validate_every output original_train_mode =
     finallyp
       (catchp
         (thenp (fit_guarded c data_loader num_epochs validate_every) (returnp output))
         (fit_handler c output))
       (model_train original_train_mode)"

text \<open>\<open>Trainer.fit\<close>.\<close>

definition fit ::
    "('w, 'b, 'o, 'v, 'd) collaborators \<Rightarrow> 'b list \<Rightarrow> int \<Rightarrow> int \<Rightarrow>
      ('w, 'b, 'o, 'v, 'd, 'v fit_output) tprog" where
  "fit c data_loader num_epochs validate_every =
     (\<lambda>s. let output = FitOutput;
              original_train_mode = model_training s;
              start_epoch = epoch s
          in bindp
               (fit_try c data_loader num_epochs validate_every output original_train_mode)
               (fit_finish c start_epoch) s)"

text \<open>\<open>Trainer.__init__\<close>: the collaborators as they are handed in, and \<open>epoch = -1\<close>.\<close>

definition Trainer_init :: "bool \<Rightarrow> 'w \<Rightarrow> 'w trainer" where
  "Trainer_init training w = \<lparr>model_training = training, epoch = - 1, world = w\<rparr>"

section \<open>Checkpoints\<close>

text \<open>
  A checkpoint dictionary, with the types of its values: under the key of a collaborator
  stands a serialized state, and under the key \<open>epoch\<close>, when it is there, an integer, as
  in every dictionary \<open>state_dict\<close> makes. \<open>load_state_dict\<close> looks at no value: it hands
  the first six to the collaborators and assigns the last.
\<close>

record 'd checkpoint =
  collaborator_states :: "string \<rightharpoonup> 'd"
  epoch_value :: "int option"

definition keys :: "'d checkpoint \<Rightarrow> string set" where
  "keys sd = dom (collaborator_states sd)
       \<union> (case epoch_value sd of None \<Rightarrow> {} | Some _ \<Rightarrow> {''epoch''})"

text \<open>\<open>Trainer.state_dict\<close>.\<close>

definition state_dict ::
    "('w, 'b, 'o, 'v, 'd) collaborators \<Rightarrow> 'w trainer \<Rightarrow> 'd checkpoint" where
  "state_dict c s =
     \<lparr>collaborator_states =
        [''model'' \<mapsto> save_state c ''model'' (world s),
         ''optimizer'' \<mapsto> save_state c ''optimizer'' (world s),
         ''value_store'' \<mapsto> save_state c ''value_store'' (world s),
         ''train_evaluator'' \<mapsto> save_state c ''train_evaluator'' (world s),
         ''val_evaluator'' \<mapsto> save_state c ''val_evaluator'' (world s),
         ''callback'' \<mapsto> save_state c ''callback'' (world s)],
      epoch_value = Some (epoch s)\<rparr>"

text \<open>\<open>d[k]\<close> raises \<open>KeyError\<close> on a key that is not there.\<close>

definition subscript :: "(string \<rightharpoonup> 'a) \<Rightarrow> string \<Rightarrow> ('s, 'ev, 'a) prog" where
  "subscript d k = (case d k of None \<Rightarrow> raisep (KeyError k) | Some v \<Rightarrow> returnp v)"

text \<open>One of the first six statements of \<open>Trainer.load_state_dict\<close>.\<close>

definition load_collaborator ::
    "('w, 'b, 'o, 'v, 'd) collaborators \<Rightarrow> 'd checkpoint \<Rightarrow> string \<Rightarrow>
      ('w, 'b, 'o, 'v, 'd, unit) tprog" where
  "load_collaborator c sd name =
     bindp (subscript (collaborator_states sd) name)
       (\<lambda>v. invoke (LoadStateDict name v) (load_state c name v))"

text \<open>The last statement of \<open>Trainer.load_state_dict\<close>, \<open>self.epoch = state_dict["epoch"]\<close>.\<close>

definition load_epoch :: "'d checkpoint \<Rightarrow> ('w, 'b, 'o, 'v, 'd, unit) tprog" where
  "load_epoch sd =
     (case epoch_value sd of
        None \<Rightarrow> raisep (KeyError ''epoch'')
      | Some n \<Rightarrow> stmt (\<lambda>s. (s\<lparr>epoch := n\<rparr>, [])))"

text \<open>\<open>Trainer.load_state_dict\<close>.\<close>

definition load_state_dict ::
    "('w, 'b, 'o, 'v, 'd) collaborators \<Rightarrow> 'd checkpoint \<Rightarrow> ('w, 'b, 'o, 'v, 'd, unit) tprog" where
  "load_state_dict c sd =
     thenp (load_collaborator c sd ''model'')
    (thenp (load_collaborator c sd ''optimizer'')
    (thenp (load_collaborator c sd ''value_store'')
    (thenp (load_collaborator c sd ''train_evaluator'')
    (thenp (load_collaborator c sd ''val_evaluator'')
    (thenp (load_collaborator c sd ''callback'')
    (load_epoch sd))))))"

text \<open>The keys of the collaborators in a checkpoint, in the order they are restored.\<close>

definition collaborator_names :: "string list" where
  "collaborator_names =
     [''model'', ''optimizer'', ''value_store'', ''train_evaluator'', ''val_evaluator'', ''callback'']"

section \<open>Invariants and event properties of computations\<close>

text \<open>
  \<open>keeps I m\<close>: a state property that holds before \<open>m\<close> holds in the state \<open>m\<close> leaves,
  however \<open>m\<close> ends. \<open>emits Q m\<close>: every event of \<open>m\<close> satisfies \<open>Q\<close>.
\<close>

definition keeps :: "('s \<Rightarrow> bool) \<Rightarrow> ('s, 'ev, 'a) prog \<Rightarrow> bool" where
  "keeps I m = (\<forall>s. I s \<longrightarrow> I (fst (snd (m s))))"

definition emits :: "('ev \<Rightarrow> bool) \<Rightarrow> ('s, 'ev, 'a) prog \<Rightarrow> bool" where
  "emits Q m = (\<forall>s. list_all Q (snd (snd (m s))))"

section \<open>Reading the events of a run\<close>

text \<open>The events a training phase goes through for one batch when every call returns.\<close>

definition batch_events ::
    "nat \<Rightarrow> 'b \<Rightarrow> 'o \<Rightarrow> (string \<rightharpoonup> 'v) \<Rightarrow> ('b, 'o, 'v, 'd) event list" where
  "batch_events batch_num batch output metric_values =
     [Callback (OnTrainBatchStart batch_num) (Inr ()),
      BatchUpdate batch_num batch (Inr output),
      NoGradEnter,
      TrainEvaluateBatch output (Inr metric_values),
      NoGradExit,
      Callback (OnTrainBatchEnd batch_num output metric_values) (Inr ())]"


definition is_on_epoch_start :: "('b, 'o, 'v, 'd) event \<Rightarrow> bool" where
  "is_on_epoch_start ev = (case ev of Callback OnEpochStart _ \<Rightarrow> True | _ \<Rightarrow> False)"




text \<open>
  The epochs for which a validation phase was entered, in order: \<open>__validate\<close> is the only
  place that calls \<open>model.eval()\<close>, and it passes the epoch to the validation evaluator.
\<close>

primrec validation_epochs :: "('b, 'o, 'v, 'd) event list \<Rightarrow> int list" where
  "validation_epochs [] = []"
| "validation_epochs (ev # t) =
     (case ev of ValEpochStart e _ \<Rightarrow> e # validation_epochs t | _ \<Rightarrow> validation_epochs t)"

text \<open>The epochs for which \<open>train_evaluator.epoch_start\<close> was called, in order.\<close>

primrec train_epochs :: "('b, 'o, 'v, 'd) event list \<Rightarrow> int list" where
  "train_epochs [] = []"
| "train_epochs (ev # t) =
     (case ev of TrainEpochStart e _ \<Rightarrow> e # train_epochs t | _ \<Rightarrow> train_epochs t)"

definition no_train_epoch_start :: "('b, 'o, 'v, 'd) event \<Rightarrow> bool" where
  "no_train_epoch_start ev = (case ev of TrainEpochStart _ _ \<Rightarrow> False | _ \<Rightarrow> True)"


definition is_train_end_returned :: "('b, 'o, 'v, 'd) event \<Rightarrow> bool" where
  "is_train_end_returned ev =
     (case ev of Callback (OnEpochTrainEnd _) (Inr _) \<Rightarrow> True | _ \<Rightarrow> False)"

text \<open>The events of the three parts of the guarded block.\<close>

definition train_event :: "('b, 'o, 'v, 'd) event \<Rightarrow> bool" where
  "train_event ev = (case ev of
       ModelTrain _ \<Rightarrow> True
     | Callback e _ \<Rightarrow>
         (case e of
            OnEpochTrainStart _ \<Rightarrow> True
          | OnTrainBatchStart _ \<Rightarrow> True
          | OnTrainBatchEnd _ _ _ \<Rightarrow> True
          | OnEpochTrainEnd _ \<Rightarrow> True
          | _ \<Rightarrow> False)
     | BatchUpdate _ _ _ \<Rightarrow> True
     | NoGradEnter \<Rightarrow> True
     | NoGradExit \<Rightarrow> True
     | TrainEpochStart _ _ \<Rightarrow> True
     | TrainEvaluateBatch _ _ \<Rightarrow> True
     | TrainEpochEnd _ _ \<Rightarrow> True
     | TrainGetTrackedValues _ \<Rightarrow> True
     | _ \<Rightarrow> False)"

definition validate_event :: "('b, 'o, 'v, 'd) event \<Rightarrow> bool" where
  "validate_event ev = (case ev of
       ModelEval \<Rightarrow> True
     | Callback e _ \<Rightarrow>
         (case e of
            OnEpochValidationStart \<Rightarrow> True
          | OnEpochValidationEnd _ \<Rightarrow> True
          | _ \<Rightarrow> False)
     | NoGradEnter \<Rightarrow> True
     | NoGradExit \<Rightarrow> True
     | ValEpochStart _ _ \<Rightarrow> True
     | ValEvaluate _ \<Rightarrow> True
     | ValEpochEnd _ _ \<Rightarrow> True
     | _ \<Rightarrow> False)"


text \<open>
  What an event says happened, read against the collaborators \<open>c\<close>: the call it names,
  made on the mode and the world of that moment with the arguments it holds while the
  trainer's epoch is \<open>ep\<close>, ended the way the event says. \<open>replay\<close> goes through a list of
  events from a start and gives the mode and the world the calls leave behind, or \<open>None\<close>
  when one of the events is not what \<open>c\<close> does there.
\<close>

definition check :: "('w, 'a) call \<Rightarrow> exn + 'a \<Rightarrow> bool \<times> 'w \<Rightarrow> (bool \<times> 'w) option" where
  "check h r st = (case h st of (r', st') \<Rightarrow> if r' = r then Some st' else None)"

definition replay_event ::
    "('w, 'b, 'o, 'v, 'd) collaborators \<Rightarrow> int \<Rightarrow> ('b, 'o, 'v, 'd) event \<Rightarrow> bool \<times> 'w \<Rightarrow>
      (bool \<times> 'w) option" where
  "replay_event c ep ev st = (case ev of
       ModelTo r \<Rightarrow> check (model_to c) r st
     | ModelTrain mode \<Rightarrow> Some (mode, snd st)
     | ModelEval \<Rightarrow> Some (False, snd st)
     | Callback e r \<Rightarrow> check (callback c ep e) r st
     | BatchUpdate batch_num batch r \<Rightarrow> check (batch_update c ep batch_num batch) r st
     | NoGradEnter \<Rightarrow> Some st
     | NoGradExit \<Rightarrow> Some st
     | TrainEpochStart e r \<Rightarrow> check (train_epoch_start c e) r st
     | TrainEvaluateBatch output r \<Rightarrow> check (train_evaluate_batch c output) r st
     | TrainEpochEnd e r \<Rightarrow> check (train_epoch_end c e) r st
     | TrainGetTrackedValues r \<Rightarrow> check (train_get_tracked_values c) r st
     | ValEpochStart e r \<Rightarrow> check (val_epoch_start c e) r st
     | ValEvaluate r \<Rightarrow> check (val_evaluate c) r st
     | ValEpochEnd e r \<Rightarrow> check (val_epoch_end c e) r st
     | ValGetTrackedValues r \<Rightarrow> check (val_get_tracked_values c) r st
     | LoadStateDict name d r \<Rightarrow> check (load_state c name d) r st)"

primrec replay ::
    "('w, 'b, 'o, 'v, 'd) collaborators \<Rightarrow> int \<Rightarrow> ('b, 'o, 'v, 'd) event list \<Rightarrow> bool \<times> 'w \<Rightarrow>
      (bool \<times> 'w) option" where
  "replay c ep [] st = Some st"
| "replay c ep (ev # t) st =
     (case replay_event c ep ev st of None \<Rightarrow> None | Some st' \<Rightarrow> replay c ep t st')"

text \<open>
  \<open>faithful c m\<close>: \<open>m\<close> leaves the epoch alone, and its events are the calls it made on
  \<open>c\<close>, in order: replayed from the mode and the world \<open>m\<close> starts in, they lead to the
  mode and the world \<open>m\<close> leaves.
\<close>

definition faithful ::
    "('w, 'b, 'o, 'v, 'd) collaborators \<Rightarrow> ('w, 'b, 'o, 'v, 'd, 'a) tprog \<Rightarrow> bool" where
  "faithful c m = (\<forall>s. case m s of (r, s', t) \<Rightarrow>
       epoch s' = epoch s \<and>
       replay c (epoch s) t (model_training s, world s) = Some (model_training s', world s'))"

section \<open>A concrete set of collaborators\<close>

text \<open>
  Collaborators to run the trainer on: each keeps a number. The model adds up the batches
  it was updated with, the optimizer counts its steps, the train evaluator sums the
  outputs of an epoch, the callback counts the events it sees. None of them touches the
  mode of the model.
\<close>

record demo_world =
  w_model :: nat
  w_optimizer :: nat
  w_value_store :: nat
  w_train_evaluator :: nat
  w_val_evaluator :: nat
  w_callback :: nat

definition demo_save :: "string \<Rightarrow> demo_world \<Rightarrow> nat" where
  "demo_save name w =
     (if name = ''model'' then w_model w
      else if name = ''optimizer'' then w_optimizer w
      else if name = ''value_store'' then w_value_store w
      else if name = ''train_evaluator'' then w_train_evaluator w
      else if name = ''val_evaluator'' then w_val_evaluator w
      else w_callback w)"

definition demo_load :: "string \<Rightarrow> nat \<Rightarrow> (demo_world, unit) call" where
  "demo_load name x st =
     (Inr (), fst st,
      if name = ''model'' then (snd st)\<lparr>w_model := x\<rparr>
      else if name = ''optimizer'' then (snd st)\<lparr>w_optimizer := x\<rparr>
      else if name = ''value_store'' then (snd st)\<lparr>w_value_store := x\<rparr>
      else if name = ''train_evaluator'' then (snd st)\<lparr>w_train_evaluator := x\<rparr>
      else if name = ''val_evaluator'' then (snd st)\<lparr>w_val_evaluator := x\<rparr>
      else (snd st)\<lparr>w_callback := x\<rparr>)"

definition demo :: "(demo_world, nat, nat, nat, nat) collaborators" where
  "demo = \<lparr>
     model_to = (\<lambda>st. (Inr (), st)),
     batch_update = (\<lambda>ep n b st.
        (Inr (w_model (snd st) + b), fst st,
         (snd st)\<lparr>w_model := w_model (snd st) + b, w_optimizer := Suc (w_optimizer (snd st))\<rparr>)),
     callback = (\<lambda>ep e st. (Inr (), fst st, (snd st)\<lparr>w_callback := Suc (w_callback (snd st))\<rparr>)),
     train_epoch_start = (\<lambda>e st. (Inr (), fst st, (snd st)\<lparr>w_train_evaluator := 0\<rparr>)),
     train_evaluate_batch = (\<lambda>out st.
        (Inr Map.empty, fst st, (snd st)\<lparr>w_train_evaluator := w_train_evaluator (snd st) + out\<rparr>)),
     train_epoch_end = (\<lambda>e st.
        (Inr (), fst st, (snd st)\<lparr>w_value_store := w_train_evaluator (snd st)\<rparr>)),
     train_get_tracked_values = (\<lambda>st. (Inr Map.empty, st)),
     val_epoch_start = (\<lambda>e st. (Inr (), st)),
     val_evaluate = (\<lambda>st. (Inr Map.empty, fst st, (snd st)\<lparr>w_val_evaluator := w_model (snd st)\<rparr>)),
     val_epoch_end = (\<lambda>e st. (Inr (), st)),
     val_get_tracked_values = (\<lambda>st. (Inr Map.empty, st)),
     save_state = demo_save,
     load_state = demo_load\<rparr>"

definition demo_world0 :: demo_world where
  "demo_world0 = \<lparr>w_model = 0, w_optimizer = 0, w_value_store = 0, w_train_evaluator = 0,
     w_val_evaluator = 0, w_callback = 0\<rparr>"



text \<open>
  Two callbacks that call \<open>trainer.model.eval()\<close>: one in \<open>on_epoch_end\<close>, inside the \<open>try\<close>
  statement of \<open>fit\<close>, the other in \<open>on_fit_end\<close>, after it.
\<close>

definition eval_on_epoch_end :: "int \<Rightarrow> (nat, nat) cb_event \<Rightarrow> (demo_world, unit) call" where
  "eval_on_epoch_end ep e st =
     (case e of OnEpochEnd \<Rightarrow> (Inr (), False, snd st) | _ \<Rightarrow> (Inr (), st))"

definition eval_on_fit_end :: "int \<Rightarrow> (nat, nat) cb_event \<Rightarrow> (demo_world, unit) call" where
  "eval_on_fit_end ep e st =
     (case e of OnFitEnd _ _ \<Rightarrow> (Inr (), False, snd st) | _ \<Rightarrow> (Inr (), st))"


section \<open>The optimizer \<open>GroupRMSprop\<close>\<close>

text \<open>
  A Python float, as far as comparisons go: a real number, an infinity, or NaN, which
  every comparison answers with \<open>False\<close>. Rounding plays no part in the constructor.
\<close>

datatype pyfloat = Finite real | PosInf | NegInf | NaN

fun float_le :: "pyfloat \<Rightarrow> pyfloat \<Rightarrow> bool" where
  "float_le NaN _ = False"
| "float_le _ NaN = False"
| "float_le NegInf _ = True"
| "float_le _ PosInf = True"
| "float_le (Finite a) (Finite b) = (a \<le> b)"
| "float_le PosInf _ = False"
| "float_le _ NegInf = False"

fun float_lt :: "pyfloat \<Rightarrow> pyfloat \<Rightarrow> bool" where
  "float_lt NaN _ = False"
| "float_lt _ NaN = False"
| "float_lt (Finite a) (Finite b) = (a < b)"
| "float_lt PosInf _ = False"
| "float_lt _ NegInf = False"
| "float_lt NegInf _ = True"
| "float_lt _ PosInf = True"

text \<open>\<open>ValueError(msg.format(x))\<close>: the text before the number, and the number.\<close>

datatype value_error = ValueError string pyfloat

text \<open>\<open>dict(lr=lr, beta=beta, eps=eps, adjusted_lr=lr)\<close>.\<close>

record defaults =
  d_lr :: pyfloat
  d_beta :: pyfloat
  d_eps :: pyfloat
  d_adjusted_lr :: pyfloat

text \<open>
  \<open>GroupRMSprop.__init__\<close>. The constructor of the base class
  \<open>torch.optim.Optimizer\<close> is a parameter; \<open>Inr\<close> holds what it makes of the parameters
  and the defaults (an optimizer, or an exception of its own).
\<close>

definition GroupRMSprop_init ::
    "('p \<Rightarrow> defaults \<Rightarrow> 'r) \<Rightarrow> 'p \<Rightarrow> pyfloat \<Rightarrow> pyfloat \<Rightarrow> pyfloat \<Rightarrow> value_error + 'r" where
  "GroupRMSprop_init base_init params lr beta eps =
     (if \<not> float_le (Finite 0) lr then Inl (ValueError ''Invalid learning rate: '' lr)
      else if \<not> float_le (Finite 0) eps then Inl (ValueError ''Invalid epsilon value: '' eps)
      else if \<not> float_le (Finite 0) beta then Inl (ValueError ''Invalid beta value: '' beta)
      else Inr (base_init params \<lparr>d_lr = lr, d_beta = beta, d_eps = eps, d_adjusted_lr = lr\<rparr>))"

section \<open>The metric \<open>MSELoss\<close>\<close>

text \<open>
  The tensor operations \<open>_calc_metric\<close> uses are parameters: \<open>a - b\<close>, \<open>a ** n\<close>,
  \<open>a.mean()\<close>, \<open>a.sum()\<close>, \<open>a.item()\<close> and \<open>len(a)\<close>.
\<close>

record ('t, 'f) tensor_ops =
  t_sub :: "'t \<Rightarrow> 't \<Rightarrow> 't"
  t_pow :: "'t \<Rightarrow> nat \<Rightarrow> 't"
  t_mean :: "'t \<Rightarrow> 't"
  t_sum :: "'t \<Rightarrow> 't"
  t_item :: "'t \<Rightarrow> 'f"
  t_len :: "'t \<Rightarrow> nat"

text \<open>\<open>MSELoss._calc_metric\<close>, with the field \<open>reduction\<close> of the metric as an argument.\<close>

definition calc_metric :: "('t, 'f) tensor_ops \<Rightarrow> string \<Rightarrow> 't \<Rightarrow> 't \<Rightarrow> 'f \<times> nat" where
  "calc_metric ops reduction y_pred y =
     (let losses = t_pow ops (t_sub ops y_pred y) 2;
          loss = (if reduction = ''mean'' then t_mean ops losses else t_sum ops losses)
      in (t_item ops loss, t_len ops y))"

text \<open>One-dimensional tensors of real numbers, to run \<open>_calc_metric\<close> on.\<close>

definition list_ops :: "(real list, real) tensor_ops" where
  "list_ops = \<lparr>
     t_sub = (\<lambda>a b. map (\<lambda>(x, y). x - y) (zip a b)),
     t_pow = (\<lambda>a n. map (\<lambda>x. x ^ n) a),
     t_mean = (\<lambda>a. [sum_list a / real (length a)]),
     t_sum = (\<lambda>a. [sum_list a]),
     t_item = hd,
     t_len = length\<rparr>"

section \<open>Rules for sequencing\<close>

lemma bindp_Inr:
  "bindp m f s = (Inr y, s', t) \<longleftrightarrow>
     (\<exists>x s1 t1 t2. m s = (Inr x, s1, t1) \<and> f x s1 = (Inr y, s', t2) \<and> t = t1 @ t2)"
  by (auto simp: bindp_def split: prod.splits sum.splits)

lemma bindp_Inl:
  "bindp m f s = (Inl e, s', t) \<longleftrightarrow>
     (m s = (Inl e, s', t) \<or>
      (\<exists>x s1 t1 t2. m s = (Inr x, s1, t1) \<and> f x s1 = (Inl e, s', t2) \<and> t = t1 @ t2))"
  by (auto simp: bindp_def split: prod.splits sum.splits)

lemma thenp_Inr:
  "thenp m n s = (Inr y, s', t) \<longleftrightarrow>
     (\<exists>x s1 t1 t2. m s = (Inr x, s1, t1) \<and> n s1 = (Inr y, s', t2) \<and> t = t1 @ t2)"
  by (simp add: thenp_def bindp_Inr)

lemma thenp_Inl:
  "thenp m n s = (Inl e, s', t) \<longleftrightarrow>
     (m s = (Inl e, s', t) \<or>
      (\<exists>x s1 t1 t2. m s = (Inr x, s1, t1) \<and> n s1 = (Inl e, s', t2) \<and> t = t1 @ t2))"
  by (simp add: thenp_def bindp_Inl)

lemma thenp_after_Inl: "m s = (Inl e, s1, t1) \<Longrightarrow> thenp m n s = (Inl e, s1, t1)"
  by (simp add: thenp_def bindp_def)

lemma thenp_after_Inr:
  "m s = (Inr x, s1, t1) \<Longrightarrow> thenp m n s = (case n s1 of (r, s2, t2) \<Rightarrow> (r, s2, t1 @ t2))"
  by (simp add: thenp_def bindp_def)

lemma keepsD: "keeps I m \<Longrightarrow> I s \<Longrightarrow> m s = (r, s', t) \<Longrightarrow> I s'"
  by (auto simp: keeps_def)

lemma emitsD:
  assumes "emits Q m" and "m s = (r, s', t)"
  shows "list_all Q t"
proof -
  from assms(1) have "list_all Q (snd (snd (m s)))"
    by (simp add: emits_def)
  with assms(2) show ?thesis by simp
qed

lemma keeps_returnp: "keeps I (returnp x)"
  by (simp add: keeps_def returnp_def)

lemma keeps_raisep: "keeps I (raisep e)"
  by (simp add: keeps_def raisep_def)

lemma keeps_bindp: "keeps I m \<Longrightarrow> (\<And>x. keeps I (f x)) \<Longrightarrow> keeps I (bindp m f)"
  by (auto simp: keeps_def bindp_def split: prod.splits sum.splits) (metis fst_conv snd_conv)+

lemma keeps_thenp: "keeps I m \<Longrightarrow> keeps I n \<Longrightarrow> keeps I (thenp m n)"
  by (simp add: thenp_def keeps_bindp)

lemma emits_returnp: "emits Q (returnp x)"
  by (simp add: emits_def returnp_def)

lemma emits_raisep: "emits Q (raisep e)"
  by (simp add: emits_def raisep_def)

lemma emits_bindp: "emits Q m \<Longrightarrow> (\<And>x. emits Q (f x)) \<Longrightarrow> emits Q (bindp m f)"
  by (auto simp: emits_def bindp_def split: prod.splits sum.splits) (metis snd_conv)+

lemma emits_thenp: "emits Q m \<Longrightarrow> emits Q n \<Longrightarrow> emits Q (thenp m n)"
  by (simp add: thenp_def emits_bindp)

lemma keeps_invoke:
  "(\<And>s b w. I (s\<lparr>model_training := b, world := w\<rparr>) = I s) \<Longrightarrow> keeps I (\<lambda>s. invoke (ev s) (h s) s)"
  by (simp add: keeps_def invoke_def split: prod.splits)

lemma keeps_emit:
  "(\<And>s b w. I (s\<lparr>model_training := b, world := w\<rparr>) = I s) \<Longrightarrow> keeps I (\<lambda>s. emit c (e s) s)"
  by (simp add: keeps_def emit_def invoke_def split: prod.splits)

section \<open>Rules for the trainer's steps\<close>

lemma invoke_eq:
  "invoke ev h s = (r, s', t) \<longleftrightarrow>
     (\<exists>b w. h (model_training s, world s) = (r, b, w)
          \<and> s' = s\<lparr>model_training := b, world := w\<rparr> \<and> t = [ev r])"
  by (auto simp: invoke_def split: prod.splits)

lemma emit_eq:
  "emit c e s = (r, s', t) \<longleftrightarrow>
     (\<exists>b w. callback c (epoch s) e (model_training s, world s) = (r, b, w)
          \<and> s' = s\<lparr>model_training := b, world := w\<rparr> \<and> t = [Callback e r])"
  by (simp add: emit_def invoke_eq)

lemma stmt_eq: "stmt f s = (r, s', t) \<longleftrightarrow> r = Inr () \<and> f s = (s', t)"
  by (auto simp: stmt_def split: prod.splits)

lemma no_grad_eq:
  "no_grad m s = (r, s', t) \<longleftrightarrow> (\<exists>t1. m s = (r, s', t1) \<and> t = NoGradEnter # t1 @ [NoGradExit])"
  by (auto simp: no_grad_def split: prod.splits)

lemma returnp_eq: "returnp x s = (r, s', t) \<longleftrightarrow> r = Inr x \<and> s' = s \<and> t = []"
  by (auto simp: returnp_def)

lemma raisep_eq: "raisep e s = (r, s', t) \<longleftrightarrow> r = Inl e \<and> s' = s \<and> t = []"
  by (auto simp: raisep_def)

lemma keeps_stmt: "(\<And>s. I s \<Longrightarrow> I (fst (f s))) \<Longrightarrow> keeps I (stmt f)"
  by (auto simp: keeps_def stmt_def split: prod.splits)

lemma keeps_no_grad: "keeps I m \<Longrightarrow> keeps I (no_grad m)"
  by (auto simp: keeps_def no_grad_def split: prod.splits)

lemma emits_invoke: "(\<And>s r. Q (ev s r)) \<Longrightarrow> emits Q (\<lambda>s. invoke (ev s) (h s) s)"
  by (simp add: emits_def invoke_def split: prod.splits)

lemma emits_emit: "(\<And>s r. Q (Callback (e s) r)) \<Longrightarrow> emits Q (\<lambda>s. emit c (e s) s)"
  by (simp add: emits_def emit_def invoke_def split: prod.splits)

lemma emits_stmt: "(\<And>s. list_all Q (snd (f s))) \<Longrightarrow> emits Q (stmt f)"
  by (auto simp: emits_def stmt_def split: prod.splits)

lemma emits_no_grad: "emits Q m \<Longrightarrow> Q NoGradEnter \<Longrightarrow> Q NoGradExit \<Longrightarrow> emits Q (no_grad m)"
  by (auto simp: emits_def no_grad_def split: prod.splits) (metis snd_conv)

text \<open>The epoch counter is the trainer's: no phase changes it.\<close>

lemma keeps_train_batch:
  assumes "\<And>s b w. I (s\<lparr>model_training := b, world := w\<rparr>) = I s"
  shows "keeps I (train_batch c i b)"
  unfolding train_batch_def
  by (intro keeps_bindp keeps_thenp keeps_no_grad keeps_invoke keeps_emit assms)

lemma keeps_train_batches:
  assumes "\<And>s b w. I (s\<lparr>model_training := b, world := w\<rparr>) = I s"
  shows "keeps I (train_batches c nbs)"
  by (induction nbs) (simp_all add: keeps_returnp keeps_thenp keeps_train_batch assms)

lemma keeps_train:
  assumes "\<And>s b w. I (s\<lparr>model_training := b, world := w\<rparr>) = I s" and "\<And>s b. I (s\<lparr>model_training := b\<rparr>) = I s"
  shows "keeps I (train c dl)"
  unfolding train_def
  by (intro keeps_bindp keeps_thenp keeps_stmt keeps_train_batches keeps_invoke keeps_emit)
     (simp_all add: assms model_train_def)

lemma keeps_validate:
  assumes "\<And>s b w. I (s\<lparr>model_training := b, world := w\<rparr>) = I s" and "\<And>s b. I (s\<lparr>model_training := b\<rparr>) = I s"
  shows "keeps I (validate c)"
  unfolding validate_def
  by (intro keeps_bindp keeps_thenp keeps_stmt keeps_no_grad keeps_invoke keeps_emit)
     (simp_all add: assms model_eval_def)

lemma emits_train_batch: "emits train_event (train_batch c i b)"
  unfolding train_batch_def
  by (intro emits_bindp emits_thenp emits_no_grad emits_invoke emits_emit)
     (simp_all add: train_event_def)

lemma emits_train_batches: "emits train_event (train_batches c nbs)"
  by (induction nbs) (simp_all add: emits_returnp emits_thenp emits_train_batch)

lemma emits_train: "emits train_event (train c dl)"
  unfolding train_def
  by (intro emits_bindp emits_thenp emits_stmt emits_train_batches emits_invoke emits_emit)
     (simp_all add: train_event_def model_train_def)

lemma emits_validate: "emits validate_event (validate c)"
  unfolding validate_def
  by (intro emits_bindp emits_thenp emits_stmt emits_no_grad emits_invoke emits_emit)
     (simp_all add: validate_event_def model_eval_def)


lemma emits_if: "emits Q a \<Longrightarrow> emits Q b \<Longrightarrow> emits Q (if p then a else b)"
  by simp

lemma keeps_if: "keeps I a \<Longrightarrow> keeps I b \<Longrightarrow> keeps I (if p then a else b)"
  by simp

lemma emits_pure: "emits Q (\<lambda>s. (f s, s, []))"
  by (simp add: emits_def)






text \<open>The events of the phases are the calls they make.\<close>

lemma replay_append:
  "replay c ep (a @ b) st =
     (case replay c ep a st of None \<Rightarrow> None | Some st' \<Rightarrow> replay c ep b st')"
  by (induction a arbitrary: st) (simp_all split: option.splits)

lemma faithfulD:
  assumes "faithful c m" and "m s = (r, s', t)"
  shows "epoch s' = epoch s"
    and "replay c (epoch s) t (model_training s, world s) = Some (model_training s', world s')"
proof -
  from assms(1) have "case m s of (r, s', t) \<Rightarrow>
       epoch s' = epoch s \<and>
       replay c (epoch s) t (model_training s, world s) = Some (model_training s', world s')"
    by (simp add: faithful_def)
  with assms(2) show "epoch s' = epoch s"
    and "replay c (epoch s) t (model_training s, world s) = Some (model_training s', world s')"
    by simp_all
qed

lemma faithful_returnp: "faithful c (returnp x)"
  by (simp add: faithful_def returnp_def)

lemma faithful_bindp:
  assumes "faithful c m" and "\<And>x. faithful c (f x)"
  shows "faithful c (bindp m f)"
  unfolding faithful_def
proof
  fix s
  obtain r1 s1 t1 where m: "m s = (r1, s1, t1)"
    by (cases "m s") auto
  note f1 = faithfulD[OF assms(1) m]
  show "case bindp m f s of (r, s', t) \<Rightarrow>
       epoch s' = epoch s \<and>
       replay c (epoch s) t (model_training s, world s) = Some (model_training s', world s')"
  proof (cases r1)
    case (Inl e)
    with m f1 show ?thesis
      by (simp add: bindp_def)
  next
    case (Inr x)
    obtain r2 s2 t2 where f: "f x s1 = (r2, s2, t2)"
      by (cases "f x s1") auto
    note f2 = faithfulD[OF assms(2) f]
    from m Inr f f1 f2 show ?thesis
      by (simp add: bindp_def replay_append)
  qed
qed

lemma faithful_thenp: "faithful c m \<Longrightarrow> faithful c n \<Longrightarrow> faithful c (thenp m n)"
  by (simp add: thenp_def faithful_bindp)

lemma faithful_invoke:
  assumes "\<And>s r st. replay_event c (epoch s) (ev s r) st = check (h s) r st"
  shows "faithful c (\<lambda>s. invoke (ev s) (h s) s)"
  by (simp add: faithful_def invoke_def assms check_def split: prod.splits)

lemma faithful_emit: "faithful c (\<lambda>s. emit c (e s) s)"
  by (simp add: faithful_def emit_def invoke_def replay_event_def check_def split: prod.splits)

lemma faithful_model_train: "faithful c (stmt (model_train mode))"
  by (simp add: faithful_def stmt_def model_train_def replay_event_def)

lemma faithful_no_grad:
  assumes "faithful c m"
  shows "faithful c (no_grad m)"
  unfolding faithful_def
proof
  fix s
  obtain r1 s1 t1 where m: "m s = (r1, s1, t1)"
    by (cases "m s") auto
  from faithfulD[OF assms m] m
  show "case no_grad m s of (r, s', t) \<Rightarrow>
       epoch s' = epoch s \<and>
       replay c (epoch s) t (model_training s, world s) = Some (model_training s', world s')"
    by (simp add: no_grad_def replay_append replay_event_def)
qed

lemma faithful_train_batch: "faithful c (train_batch c i b)"
  unfolding train_batch_def
  by (intro faithful_bindp faithful_thenp faithful_no_grad faithful_invoke faithful_emit)
     (simp_all add: replay_event_def)

lemma faithful_train_batches: "faithful c (train_batches c nbs)"
  by (induction nbs) (simp_all add: faithful_returnp faithful_thenp faithful_train_batch)

lemma faithful_train: "faithful c (train c dl)"
  unfolding train_def
  by (intro faithful_bindp faithful_thenp faithful_model_train faithful_train_batches
        faithful_invoke faithful_emit)
     (simp_all add: replay_event_def)

section \<open>The training phase\<close>

lemma train_batch_Inr:
  assumes "train_batch c i b s = (Inr (), s', t)"
  shows "\<exists>out mv. t = batch_events i b out mv"
  using assms
  by (auto simp: train_batch_def thenp_Inr bindp_Inr emit_eq invoke_eq no_grad_eq batch_events_def)

lemma train_batches_Inr:
  "train_batches c nbs s = (Inr (), s', t) \<Longrightarrow>
     \<exists>oms. length oms = length nbs
        \<and> t = concat (map (\<lambda>((i, b), (out, mv)). batch_events i b out mv) (zip nbs oms))"
proof (induction nbs arbitrary: s t)
  case Nil
  then show ?case by (simp add: returnp_eq)
next
  case (Cons nb rest)
  from Cons.prems obtain s1 t1 t2 where
      h: "train_batch c (fst nb) (snd nb) s = (Inr (), s1, t1)"
      and r: "train_batches c rest s1 = (Inr (), s', t2)" and t: "t = t1 @ t2"
    by (auto simp: thenp_Inr)
  from train_batch_Inr[OF h] obtain out mv where
      t1: "t1 = batch_events (fst nb) (snd nb) out mv"
    by blast
  from Cons.IH[OF r] obtain oms where
      oms: "length oms = length rest"
        "t2 = concat (map (\<lambda>((i, b), (out, mv)). batch_events i b out mv) (zip rest oms))"
    by blast
  show ?case
    by (rule exI[of _ "(out, mv) # oms"]) (cases nb, simp add: t t1 oms)
qed

text \<open>
  C5. A training phase in which every call returns goes through exactly these events, in
  this order: \<open>model.train()\<close>; \<open>on_epoch_train_start\<close> with the number of batches of the
  data loader; \<open>train_evaluator.epoch_start(epoch)\<close>; then for every batch, in the order
  of the data loader and numbered from 0, the six events of \<open>batch_events\<close>
  (\<open>on_train_batch_start(batch_num)\<close>, \<open>batch_update(batch_num, batch)\<close> returning \<open>out\<close>,
  entering \<open>no_grad\<close>, \<open>evaluate_batch(out)\<close> returning \<open>mv\<close>, leaving \<open>no_grad\<close>,
  \<open>on_train_batch_end(batch_num, out, mv)\<close>); then \<open>train_evaluator.epoch_end(epoch)\<close>,
  \<open>get_tracked_values()\<close> returning \<open>tracked\<close>, and \<open>on_epoch_train_end\<close> with the
  \<open>current_value\<close> of every tracked value. Every one of these events is the call it
  names, made on the collaborators of the trainer in the mode and the world the steps
  before it left, the model in train mode from the first step on: replayed from where
  the phase starts, the events lead to the mode and the world the phase leaves. The
  phase leaves the epoch as it was.
\<close>

theorem train_steps_in_order:
  assumes "train c data_loader s = (Inr (), s', t)"
  shows "(\<exists>oms tracked.
      length oms = length data_loader \<and>
      t = [ModelTrain True,
           Callback (OnEpochTrainStart (length data_loader)) (Inr ()),
           TrainEpochStart (epoch s) (Inr ())]
        @ concat (map (\<lambda>((i, b), (out, mv)). batch_events i b out mv)
                      (zip (enumerate 0 data_loader) oms))
        @ [TrainEpochEnd (epoch s) (Inr ()),
           TrainGetTrackedValues (Inr tracked),
           Callback (OnEpochTrainEnd (\<lambda>name. map_option current_value (tracked name))) (Inr ())])
     \<and> replay c (epoch s) t (model_training s, world s) = Some (model_training s', world s')
     \<and> epoch s' = epoch s"
proof -
  from assms obtain s3 s4 t4 tracked where
      b: "train_batches c (enumerate 0 data_loader) s3 = (Inr (), s4, t4)"
      and e3: "epoch s3 = epoch s"
      and t: "t = [ModelTrain True] @ [Callback (OnEpochTrainStart (length data_loader)) (Inr ())]
            @ [TrainEpochStart (epoch s) (Inr ())] @ t4 @ [TrainEpochEnd (epoch s4) (Inr ())]
            @ [TrainGetTrackedValues (Inr tracked)]
            @ [Callback (OnEpochTrainEnd (\<lambda>name. map_option current_value (tracked name))) (Inr ())]"
    by (auto simp: train_def thenp_Inr bindp_Inr emit_eq invoke_eq stmt_eq model_train_def)
  from train_batches_Inr[OF b] obtain oms where
      oms: "length oms = length (enumerate 0 data_loader)"
        "t4 = concat (map (\<lambda>((i, b), (out, mv)). batch_events i b out mv)
                          (zip (enumerate 0 data_loader) oms))"
    by blast
  from faithfulD(1)[OF faithful_train_batches b] have e4: "epoch s4 = epoch s3" .
  have shape: "\<exists>oms tracked.
      length oms = length data_loader \<and>
      t = [ModelTrain True,
           Callback (OnEpochTrainStart (length data_loader)) (Inr ()),
           TrainEpochStart (epoch s) (Inr ())]
        @ concat (map (\<lambda>((i, b), (out, mv)). batch_events i b out mv)
                      (zip (enumerate 0 data_loader) oms))
        @ [TrainEpochEnd (epoch s) (Inr ()),
           TrainGetTrackedValues (Inr tracked),
           Callback (OnEpochTrainEnd (\<lambda>name. map_option current_value (tracked name))) (Inr ())]"
    by (rule exI[of _ oms], rule exI[of _ tracked]) (use oms e3 e4 t in simp)
  note calls = faithfulD[OF faithful_train assms]
  from shape calls show ?thesis
    by (intro conjI)
qed

lemmas run_simps = train_def train_batch_def validate_def epoch_body_def
  fit_def fit_guarded_def fit_handler_def fit_finish_def emit_def invoke_def stmt_def no_grad_def
  model_train_def model_eval_def bindp_def thenp_def returnp_def raisep_def catchp_def finallyp_def
  py_mod_def fit_try_def FitOutput_def update_train_tracked_values_def update_val_tracked_values_def
  Trainer_init_def demo_def demo_world0_def enumerate_eq_zip Let_def

theorem train_steps_in_order_witness:
  "(case train demo [3, 4] (Trainer_init False demo_world0) of
      (r, s', t) \<Rightarrow>
        r = Inr ()
        \<and> s' = \<lparr>model_training = True, epoch = - 1,
                world = \<lparr>w_model = 7, w_optimizer = 2, w_value_store = 10,
                          w_train_evaluator = 10, w_val_evaluator = 0, w_callback = 6\<rparr>\<rparr>
        \<and> replay demo (- 1) t (False, demo_world0)
            = Some (True, \<lparr>w_model = 7, w_optimizer = 2, w_value_store = 10,
                             w_train_evaluator = 10, w_val_evaluator = 0, w_callback = 6\<rparr>)
        \<and> (\<exists>oms tracked.
              length oms = 2 \<and>
              t = [ModelTrain True, Callback (OnEpochTrainStart 2) (Inr ()),
                   TrainEpochStart (- 1) (Inr ())]
                @ concat (map (\<lambda>((i, b), (out, mv)). batch_events i b out mv)
                              (zip [(0, 3), (1, 4)] oms))
                @ [TrainEpochEnd (- 1) (Inr ()),
                   TrainGetTrackedValues (Inr tracked),
                   Callback (OnEpochTrainEnd (\<lambda>name. map_option current_value (tracked name)))
                     (Inr ())]))"
proof -
  define run where "run = train demo [3, 4] (Trainer_init False demo_world0)"
  have r: "fst run = Inr ()"
    and s': "fst (snd run) = \<lparr>model_training = True, epoch = - 1,
                world = \<lparr>w_model = 7, w_optimizer = 2, w_value_store = 10,
                          w_train_evaluator = 10, w_val_evaluator = 0, w_callback = 6\<rparr>\<rparr>"
    unfolding run_def by (simp_all add: run_simps)
  from r have "train demo [3, 4] (Trainer_init False demo_world0)
      = (Inr (), fst (snd run), snd (snd run))"
    unfolding run_def by (simp add: prod_eq_iff)
  from train_steps_in_order[OF this] r s' show ?thesis
    unfolding run_def
    by (simp add: Trainer_init_def enumerate_eq_zip numeral_2_eq_2 case_prod_beta)
qed

section \<open>The epoch loop\<close>

lemma fit_unfold:
  "fit c dl n ve s =
     bindp (finallyp (catchp (thenp (fit_guarded c dl n ve) (returnp FitOutput))
                             (fit_handler c FitOutput))
                     (model_train (model_training s)))
           (fit_finish c (epoch s)) s"
  by (simp add: fit_def fit_try_def Let_def)

lemma fit_after_Inr:
  assumes "fit_guarded c dl n ve s = (Inr (), s1, t1)"
  shows "fit c dl n ve s =
     (case fit_finish c (epoch s) FitOutput (s1\<lparr>model_training := model_training s\<rparr>) of
        (r, s2, t2) \<Rightarrow> (r, s2, t1 @ ModelTrain (model_training s) # t2))"
  using assms
  by (simp add: fit_unfold bindp_def finallyp_def catchp_def thenp_def returnp_def model_train_def
      split: prod.splits)

lemma fit_after_Inl:
  assumes "fit_guarded c dl n ve s = (Inl e, s1, t1)"
  shows "fit c dl n ve s =
     (case fit_handler c FitOutput e s1 of
        (Inl e', s2, t2) \<Rightarrow>
          (Inl e', s2\<lparr>model_training := model_training s\<rparr>, t1 @ t2 @ [ModelTrain (model_training s)])
      | (Inr out, s2, t2) \<Rightarrow>
          (case fit_finish c (epoch s) out (s2\<lparr>model_training := model_training s\<rparr>) of
             (r, s3, t3) \<Rightarrow> (r, s3, t1 @ t2 @ ModelTrain (model_training s) # t3)))"
  using assms
  by (simp add: fit_unfold bindp_def finallyp_def catchp_def thenp_def returnp_def model_train_def
      split: prod.splits sum.splits)

lemma fit_finish_Inr:
  assumes "fit_finish c k out0 s = (Inr out, s', t)"
  shows "\<exists>tv vv. out = update_val_tracked_values (update_train_tracked_values out0 tv) vv
           \<and> t = [TrainGetTrackedValues (Inr tv), ValGetTrackedValues (Inr vv),
                  Callback (OnFitEnd (epoch s - k) out) (Inr ())]
           \<and> epoch s' = epoch s"
  using assms
  by (auto simp: fit_finish_def bindp_Inr thenp_Inr invoke_eq emit_eq returnp_eq)

lemma fit_finish_exception:
  "fit_finish c k out0 s = (Inr out, s', t) \<Longrightarrow> exception out = exception out0"
  by (auto dest!: fit_finish_Inr
      simp: update_val_tracked_values_def update_train_tracked_values_def)

lemma fit_handler_Inr:
  "fit_handler c out0 e s1 = (Inr out, s2, t2) \<Longrightarrow>
     is_stop e \<and> out = out0\<lparr>exception := Some e\<rparr> \<and> t2 = [Callback (OnException e) (Inr ())]
     \<and> epoch s2 = epoch s1"
  by (auto simp: fit_handler_def thenp_Inr emit_eq returnp_eq raisep_eq split: if_splits)

lemma filter_emits:
  assumes "emits P m" and "m s = (r, s', t)" and "\<And>ev. P ev \<Longrightarrow> \<not> Q ev"
  shows "filter Q t = []"
  using emitsD[OF assms(1,2)] assms(3) by (auto simp: list_all_iff filter_empty_conv)

lemma validation_epochs_append:
  "validation_epochs (a @ b) = validation_epochs a @ validation_epochs b"
  by (induction a) (simp_all split: event.splits)

lemma validation_epochs_train:
  "list_all train_event t \<Longrightarrow> validation_epochs t = []"
  by (induction t) (auto simp: train_event_def split: event.splits)

lemma train_not_on_epoch_start: "train_event ev \<Longrightarrow> \<not> is_on_epoch_start ev"
  by (auto simp: train_event_def is_on_epoch_start_def split: event.splits cb_event.splits)

lemma validate_not_on_epoch_start: "validate_event ev \<Longrightarrow> \<not> is_on_epoch_start ev"
  by (auto simp: validate_event_def is_on_epoch_start_def split: event.splits cb_event.splits)

lemma validate_Inr:
  assumes "validate c s = (Inr (), s', t)"
  shows "validation_epochs t = [epoch s]"
  using assms
  by (auto simp: validate_def thenp_Inr bindp_Inr emit_eq invoke_eq stmt_eq no_grad_eq model_eval_def)

lemma epoch_body_Inr:
  assumes "epoch_body c dl ve s = (Inr (), s', t)"
  shows "epoch s' = epoch s + 1"
    and "length (filter is_on_epoch_start t) = 1"
    and "validation_epochs t = (if py_mod (epoch s + 2) ve = Inr 0 then [epoch s + 1] else [])"
proof -
  from assms obtain b w b' w' s2 s3 t2 t3 r where
      tr: "train c dl (s\<lparr>epoch := epoch s + 1, model_training := b, world := w\<rparr>) = (Inr (), s2, t2)"
      and pm: "py_mod (epoch s2 + 1) ve = Inr r"
      and va: "(if r = 0 then validate c else returnp ()) s2 = (Inr (), s3, t3)"
      and s'w: "s' = s3\<lparr>model_training := b', world := w'\<rparr>"
      and t: "t = Callback OnEpochStart (Inr ()) # t2 @ t3 @ [Callback OnEpochEnd (Inr ())]"
    by (auto simp: epoch_body_def thenp_Inr bindp_Inr emit_eq stmt_eq)
  define s1 where "s1 = s\<lparr>epoch := epoch s + 1, model_training := b, world := w\<rparr>"
  have s1: "epoch s1 = epoch s + 1" by (simp add: s1_def)
  note tr = tr[folded s1_def]
  from s'w have s': "epoch s' = epoch s3" by simp
  have "keeps (\<lambda>x. epoch x = epoch s1) (train c dl)"
    by (rule keeps_train) simp_all
  from keepsD[OF this _ tr] have s2: "epoch s2 = epoch s1" by simp
  have "keeps (\<lambda>x. epoch x = epoch s2) (if r = 0 then validate c else returnp ())"
    by (intro keeps_if keeps_validate keeps_returnp) simp_all
  from keepsD[OF this _ va] have s3: "epoch s3 = epoch s2" by simp
  show "epoch s' = epoch s + 1"
    by (simp add: s' s3 s2 s1)
  have f2: "filter is_on_epoch_start t2 = []"
    by (rule filter_emits[OF emits_train tr]) (rule train_not_on_epoch_start)
  have v2: "validation_epochs t2 = []"
    by (rule validation_epochs_train) (rule emitsD[OF emits_train tr])
  have f3: "filter is_on_epoch_start t3 = []"
  proof (cases "r = 0")
    case True
    with va have "validate c s2 = (Inr (), s3, t3)" by simp
    from filter_emits[OF emits_validate this] validate_not_on_epoch_start
    show ?thesis by blast
  next
    case False
    with va show ?thesis by (simp add: returnp_eq)
  qed
  have v3: "validation_epochs t3 = (if r = 0 then [epoch s2] else [])"
  proof (cases "r = 0")
    case True
    with va have "validate c s2 = (Inr (), s3, t3)" by simp
    from validate_Inr[OF this] True show ?thesis by simp
  next
    case False
    with va show ?thesis by (simp add: returnp_eq)
  qed
  show "length (filter is_on_epoch_start t) = 1"
    by (simp add: t f2 f3 is_on_epoch_start_def)
  have "epoch s2 + 1 = epoch s + 2"
    by (simp add: s2 s1)
  with pm have "py_mod (epoch s + 2) ve = Inr r"
    by simp
  then have "(py_mod (epoch s + 2) ve = Inr 0) = (r = 0)"
    by simp
  then show "validation_epochs t = (if py_mod (epoch s + 2) ve = Inr 0 then [epoch s + 1] else [])"
    by (simp add: t validation_epochs_append v2 v3 s2 s1)
qed

lemma epoch_loop_Inr:
  "epoch_loop c dl ve k s = (Inr (), s', t) \<Longrightarrow>
     epoch s' = epoch s + int k
     \<and> length (filter is_on_epoch_start t) = k
     \<and> validation_epochs t =
         filter (\<lambda>e. py_mod (e + 1) ve = Inr 0) [epoch s + 1 .. epoch s + int k]"
proof (induction k arbitrary: s t)
  case 0
  then show ?case by (simp add: returnp_eq)
next
  case (Suc k)
  from Suc.prems obtain s1 t1 t2 where
      b: "epoch_body c dl ve s = (Inr (), s1, t1)"
      and l: "epoch_loop c dl ve k s1 = (Inr (), s', t2)" and t: "t = t1 @ t2"
    by (auto simp: thenp_Inr)
  note eb = epoch_body_Inr[OF b]
  note ih = Suc.IH[OF l]
  let ?P = "\<lambda>e. py_mod (e + 1) ve = Inr 0"
  have a: "epoch s1 + 1 = epoch s + 1 + 1" "epoch s1 + int k = epoch s + int (Suc k)"
    using eb(1) by simp_all
  have u: "[epoch s + 1 .. epoch s + int (Suc k)]
      = (epoch s + 1) # [epoch s + 1 + 1 .. epoch s + int (Suc k)]"
    by (rule upto_rec1) simp
  have p: "?P (epoch s + 1) = (py_mod (epoch s + 2) ve = Inr 0)"
    by (simp add: add.assoc)
  have "validation_epochs t = validation_epochs t1 @ validation_epochs t2"
    by (simp add: t validation_epochs_append)
  also have "\<dots> = (if py_mod (epoch s + 2) ve = Inr 0 then [epoch s + 1] else [])
      @ filter ?P [epoch s1 + 1 .. epoch s1 + int k]"
    using eb(3) ih by simp
  also have "\<dots> = filter ?P ((epoch s + 1) # [epoch s1 + 1 .. epoch s1 + int k])"
    by (simp only: filter.simps p append_Cons append_Nil if_distrib[of "\<lambda>x. x @ _"] split: if_splits)
  also have "\<dots> = filter ?P [epoch s + 1 .. epoch s + int (Suc k)]"
    by (simp only: a u)
  finally have v: "validation_epochs t = filter ?P [epoch s + 1 .. epoch s + int (Suc k)]" .
  have e: "epoch s' = epoch s + int (Suc k)"
    using eb(1) ih by simp
  have n: "length (filter is_on_epoch_start t) = Suc k"
    using eb(2) ih by (simp add: t)
  from e n v show ?case by blast
qed

lemma fit_guarded_Inr:
  assumes "fit_guarded c dl n ve s = (Inr (), s', t)"
  shows "epoch s' = epoch s + int (nat n)"
    and "length (filter is_on_epoch_start t) = nat n"
    and "validation_epochs t = filter (\<lambda>e. py_mod (e + 1) ve = Inr 0) [epoch s + 1 .. epoch s + n]"
proof -
  from assms obtain s2 t2 where
      l: "epoch_loop c dl ve (nat n) s2 = (Inr (), s', t2)"
      and s2: "epoch s2 = epoch s"
      and t: "t = [ModelTo (Inr ())] @ [Callback (OnFitStart n) (Inr ())] @ t2"
    by (auto simp: fit_guarded_def thenp_Inr emit_eq invoke_eq)
  note el = epoch_loop_Inr[OF l]
  show "epoch s' = epoch s + int (nat n)"
    using el by (simp add: s2)
  show "length (filter is_on_epoch_start t) = nat n"
    using el by (simp add: t is_on_epoch_start_def)
  have "[epoch s + 1 .. epoch s + int (nat n)] = [epoch s + 1 .. epoch s + n]"
    by (cases "0 \<le> n") simp_all
  then show "validation_epochs t = filter (\<lambda>e. py_mod (e + 1) ve = Inr 0) [epoch s + 1 .. epoch s + n]"
    using el by (simp add: t s2)
qed

text \<open>A run of \<open>fit\<close> that returns and recorded no exception went through the whole loop.\<close>

lemma fit_complete:
  assumes "fit c dl n ve s = (Inr out, s', t)" and "exception out = None"
  shows "\<exists>s1 t1 tv vv. fit_guarded c dl n ve s = (Inr (), s1, t1) \<and> epoch s' = epoch s1
           \<and> t = t1 @ [ModelTrain (model_training s), TrainGetTrackedValues (Inr tv),
                         ValGetTrackedValues (Inr vv),
                         Callback (OnFitEnd (epoch s1 - epoch s) out) (Inr ())]"
proof -
  obtain r1 s1 t1 where g: "fit_guarded c dl n ve s = (r1, s1, t1)"
    by (cases "fit_guarded c dl n ve s") auto
  show ?thesis
  proof (cases r1)
    case (Inl e)
    with g have g': "fit_guarded c dl n ve s = (Inl e, s1, t1)" by simp
    obtain r2 s2 t2 where h: "fit_handler c FitOutput e s1 = (r2, s2, t2)"
      by (cases "fit_handler c FitOutput e s1") auto
    show ?thesis
    proof (cases r2)
      case (Inl e')
      with assms(1) h show ?thesis by (simp add: fit_after_Inl[OF g'])
    next
      case (Inr out2)
      with h have "exception out2 = Some e"
        by (auto dest!: fit_handler_Inr)
      moreover from assms(1) h Inr have "exception out = exception out2"
        by (auto simp: fit_after_Inl[OF g'] split: prod.splits dest: fit_finish_exception)
      ultimately show ?thesis using assms(2) by simp
    qed
  next
    case (Inr u)
    with g have g': "fit_guarded c dl n ve s = (Inr (), s1, t1)" by simp
    from assms(1) obtain t2 where
        f: "fit_finish c (epoch s) FitOutput (s1\<lparr>model_training := model_training s\<rparr>) = (Inr out, s', t2)"
        and t: "t = t1 @ ModelTrain (model_training s) # t2"
      by (auto simp: fit_after_Inr[OF g'] split: prod.splits)
    from fit_finish_Inr[OF f] obtain tv vv where
        "epoch s' = epoch s1"
        "t2 = [TrainGetTrackedValues (Inr tv), ValGetTrackedValues (Inr vv),
               Callback (OnFitEnd (epoch s1 - epoch s) out) (Inr ())]"
      by auto
    with g' t show ?thesis by simp
  qed
qed

section \<open>How many epochs a run goes through\<close>

text \<open>
  C6 (as amended). A trainer is constructed with \<open>epoch = -1\<close>. A call of \<open>fit\<close> with
  \<open>num_epochs = n\<close> that returns and records no exception went through the epoch loop
  \<open>nat n\<close> times, which is \<open>n\<close> for \<open>n \<ge> 0\<close> and \<open>0\<close> for a negative \<open>n\<close> (one
  \<open>on_epoch_start\<close> per iteration), and leaves \<open>epoch\<close> at its value on entry plus \<open>nat n\<close>.
\<close>

theorem fit_epoch_count:
  assumes "fit c data_loader n validate_every s = (Inr out, s', t)"
    and "exception out = None"
  shows "epoch (Trainer_init training w) = - 1
       \<and> length (filter is_on_epoch_start t) = nat n
       \<and> epoch s' = epoch s + int (nat n)"
proof -
  from fit_complete[OF assms] obtain s1 t1 tv vv where
      g: "fit_guarded c data_loader n validate_every s = (Inr (), s1, t1)"
      and e: "epoch s' = epoch s1"
      and t: "t = t1 @ [ModelTrain (model_training s), TrainGetTrackedValues (Inr tv),
                        ValGetTrackedValues (Inr vv),
                        Callback (OnFitEnd (epoch s1 - epoch s) out) (Inr ())]"
    by blast
  from fit_guarded_Inr(1,2)[OF g] e t show ?thesis
    by (simp add: Trainer_init_def is_on_epoch_start_def)
qed

lemma epoch_loop_numeral:
  "epoch_loop c dl ve (numeral k) =
     thenp (epoch_body c dl ve) (epoch_loop c dl ve (pred_numeral k))"
  by (simp add: numeral_eq_Suc)

theorem fit_epoch_count_witness:
  "(case fit demo [5] 3 1 (Trainer_init True demo_world0) of
      (r, s', t) \<Rightarrow> length (filter is_on_epoch_start t) = 3 \<and> epoch s' = 2)"
proof -
  define run where "run = fit demo [5] 3 1 (Trainer_init True demo_world0)"
  have r: "isl (fst run) = False" "exception (projr (fst run)) = None"
    unfolding run_def by (simp_all add: run_simps epoch_loop_numeral)
  then have "fit demo [5] 3 1 (Trainer_init True demo_world0)
      = (Inr (projr (fst run)), fst (snd run), snd (snd run))"
    unfolding run_def by (simp add: prod_eq_iff sum.expand)
  from fit_epoch_count[OF this r(2)] show ?thesis
    unfolding run_def by (auto simp: Trainer_init_def split: prod.splits)
qed

theorem negative_num_epochs_counterexample:
  "(case fit demo [5] (- 1) 1 (Trainer_init True demo_world0) of
      (Inr out, s', t) \<Rightarrow>
         exception out = None \<and> length (filter is_on_epoch_start t) = 0
         \<and> epoch s' = epoch (Trainer_init True demo_world0)
         \<and> epoch s' \<noteq> epoch (Trainer_init True demo_world0) + (- 1)
    | (Inl e, s', t) \<Rightarrow> False)"
  by (simp add: run_simps is_on_epoch_start_def)

section \<open>When the validation phase runs\<close>






lemma validate_not_train_end: "validate_event ev \<Longrightarrow> \<not> is_train_end_returned ev"
  by (auto simp: validate_event_def is_train_end_returned_def split: event.splits cb_event.splits)





section \<open>The graceful stop\<close>






section \<open>Fatal errors\<close>





section \<open>The mode of the model across \<open>fit\<close>\<close>

lemma finallyp_model_train:
  "finallyp m (model_train b) s = (r, s', t) \<Longrightarrow> model_training s' = b"
  by (auto simp: finallyp_def model_train_def split: prod.splits)

lemma fit_try_mode:
  "model_training (fst (snd (fit_try c dl n ve out b s))) = b"
proof -
  obtain r s' t where "fit_try c dl n ve out b s = (r, s', t)"
    by (cases "fit_try c dl n ve out b s") auto
  then show ?thesis
    by (auto simp: fit_try_def dest: finallyp_model_train)
qed

lemma fit_by_fit_try:
  "fit c dl n ve s =
     bindp (fit_try c dl n ve FitOutput (model_training s)) (fit_finish c (epoch s)) s"
  by (simp add: fit_def Let_def)

lemma keeps_mode_invoke:
  fixes h :: "('w, 'a) call"
  assumes "\<And>st. fst (snd (h st)) = fst st"
  shows "keeps (\<lambda>x. model_training x = b) (invoke ev h)"
proof -
  have "model_training (fst (snd (invoke ev h s))) = model_training s" for s :: "'w trainer"
    using assms[of "(model_training s, world s)"]
    by (auto simp: invoke_def split: prod.splits)
  then show ?thesis
    by (simp add: keeps_def)
qed

lemma keeps_mode_on_fit_end:
  fixes c :: "('w, 'b, 'o, 'v, 'd) collaborators"
  assumes "\<And>ep k out st. fst (snd (callback c ep (OnFitEnd k out) st)) = fst st"
  shows "keeps (\<lambda>x. model_training x = b) (\<lambda>s. emit c (OnFitEnd (epoch s - k) out) s)"
proof -
  have "model_training (fst (snd (emit c (OnFitEnd (epoch s - k) out) s))) = model_training s"
    for s :: "'w trainer"
    using assms[of "epoch s" "epoch s - k" out "(model_training s, world s)"]
    by (auto simp: emit_def invoke_def split: prod.splits)
  then show ?thesis
    by (simp add: keeps_def)
qed

lemma keeps_mode_fit_finish:
  assumes "\<And>st. fst (snd (train_get_tracked_values c st)) = fst st"
    and "\<And>st. fst (snd (val_get_tracked_values c st)) = fst st"
    and "\<And>ep k out st. fst (snd (callback c ep (OnFitEnd k out) st)) = fst st"
  shows "keeps (\<lambda>x. model_training x = b) (fit_finish c k out)"
  unfolding fit_finish_def
  by (intro keeps_bindp keeps_thenp keeps_returnp keeps_mode_invoke keeps_mode_on_fit_end assms)

text \<open>
  C4 (as amended). When the \<open>try\<close> statement of \<open>fit\<close> is left, by a complete run, by a
  graceful stop or by an exception, the model is in the mode it had when \<open>fit\<close> was called,
  whatever the collaborators did to the mode in between. When the \<open>try\<close> statement raises,
  \<open>fit\<close> ends there, so it leaves the model in that mode. Otherwise \<open>fit\<close> goes on to call
  \<open>get_tracked_values\<close> of both evaluators and \<open>on_fit_end\<close>: if these three leave the
  mode of the model as they find it, then \<open>fit\<close>, however it ends, leaves the model in
  the mode it had when \<open>fit\<close> was called.
\<close>

theorem fit_restores_model_mode:
  "model_training
     (fst (snd (fit_try c data_loader n validate_every FitOutput (model_training s) s)))
     = model_training s
   \<and> (isl (fst (fit_try c data_loader n validate_every FitOutput (model_training s) s)) \<longrightarrow>
        fit c data_loader n validate_every s
          = fit_try c data_loader n validate_every FitOutput (model_training s) s)
   \<and> ((\<forall>st. fst (snd (train_get_tracked_values c st)) = fst st)
       \<and> (\<forall>st. fst (snd (val_get_tracked_values c st)) = fst st)
       \<and> (\<forall>ep k out st. fst (snd (callback c ep (OnFitEnd k out) st)) = fst st)
       \<longrightarrow> model_training (fst (snd (fit c data_loader n validate_every s))) = model_training s)"
proof -
  let ?stmt = "fit_try c data_loader n validate_every FitOutput (model_training s)"
  obtain r s1 t1 where m: "?stmt s = (r, s1, t1)"
    by (cases "?stmt s") auto
  have s1: "model_training s1 = model_training s"
    using fit_try_mode[of c data_loader n validate_every FitOutput "model_training s" s] m
    by simp
  have a: "model_training (fst (snd (?stmt s))) = model_training s"
    by (rule fit_try_mode)
  have b: "isl (fst (?stmt s)) \<longrightarrow> fit c data_loader n validate_every s = ?stmt s"
  proof
    assume "isl (fst (?stmt s))"
    with m obtain e where "r = Inl e"
      by (cases r) auto
    with m show "fit c data_loader n validate_every s = ?stmt s"
      by (simp add: fit_by_fit_try bindp_def)
  qed
  have c: "model_training (fst (snd (fit c data_loader n validate_every s))) = model_training s"
    if h: "(\<forall>st. fst (snd (train_get_tracked_values c st)) = fst st)
       \<and> (\<forall>st. fst (snd (val_get_tracked_values c st)) = fst st)
       \<and> (\<forall>ep k out st. fst (snd (callback c ep (OnFitEnd k out) st)) = fst st)"
  proof (cases r)
    case (Inl e)
    with m s1 show ?thesis
      by (simp add: fit_by_fit_try bindp_def)
  next
    case (Inr out)
    obtain r2 s2 t2 where f: "fit_finish c (epoch s) out s1 = (r2, s2, t2)"
      by (cases "fit_finish c (epoch s) out s1") auto
    from h have h1: "\<And>st. fst (snd (train_get_tracked_values c st)) = fst st"
      and h2: "\<And>st. fst (snd (val_get_tracked_values c st)) = fst st"
      and h3: "\<And>ep k out st. fst (snd (callback c ep (OnFitEnd k out) st)) = fst st"
      by blast+
    have "keeps (\<lambda>x. model_training x = model_training s) (fit_finish c (epoch s) out)"
      by (rule keeps_mode_fit_finish) (rule h1 h2 h3)+
    from keepsD[OF this s1 f] have "model_training s2 = model_training s" .
    with m Inr f show ?thesis
      by (simp add: fit_by_fit_try bindp_def)
  qed
  from a b c show ?thesis
    by blast
qed

theorem fit_restores_model_mode_witness:
  "model_training (Trainer_init True demo_world0) = True
   \<and> model_training
       (fst (snd (fit_guarded (demo\<lparr>callback := eval_on_epoch_end\<rparr>) [5] 2 1
          (Trainer_init True demo_world0)))) = False
   \<and> model_training
       (fst (snd (fit (demo\<lparr>callback := eval_on_epoch_end\<rparr>) [5] 2 1
          (Trainer_init True demo_world0)))) = True"
proof -
  let ?c = "demo\<lparr>callback := eval_on_epoch_end\<rparr>"
  let ?s = "Trainer_init True demo_world0"
  have h: "(\<forall>st. fst (snd (train_get_tracked_values ?c st)) = fst st)
       \<and> (\<forall>st. fst (snd (val_get_tracked_values ?c st)) = fst st)
       \<and> (\<forall>ep k out st. fst (snd (callback ?c ep (OnFitEnd k out) st)) = fst st)"
    by (simp add: demo_def eval_on_epoch_end_def)
  have g: "model_training (fst (snd (fit_guarded ?c [5] 2 1 ?s))) = False"
    by (simp add: run_simps epoch_loop_numeral eval_on_epoch_end_def)
  from fit_restores_model_mode[of ?c "[5]" 2 1 ?s] h
  have "model_training (fst (snd (fit ?c [5] 2 1 ?s))) = model_training ?s"
    by blast
  with g show ?thesis
    by (simp add: Trainer_init_def)
qed

theorem eval_in_on_fit_end_counterexample:
  "(case fit (demo\<lparr>callback := eval_on_fit_end\<rparr>) [5] 1 1 (Trainer_init True demo_world0) of
      (r, s', t) \<Rightarrow>
        map_sum id exception r = Inr None
        \<and> model_training (Trainer_init True demo_world0) = True
        \<and> model_training s' = False)"
  by (simp add: run_simps epoch_loop_numeral eval_on_fit_end_def)

section \<open>Checkpoints: what is saved and in which order it is restored\<close>

lemma load_collaborator_eq:
  "load_collaborator c sd name s = (r, s', t) \<longleftrightarrow>
     (collaborator_states sd name = None \<and> r = Inl (KeyError name) \<and> s' = s \<and> t = []) \<or>
     (\<exists>v b w. collaborator_states sd name = Some v
          \<and> load_state c name v (model_training s, world s) = (r, b, w)
          \<and> s' = s\<lparr>model_training := b, world := w\<rparr> \<and> t = [LoadStateDict name v r])"
  by (cases "collaborator_states sd name")
     (auto simp: load_collaborator_def subscript_def bindp_def raisep_def returnp_def invoke_def
       split: prod.splits)

lemma load_epoch_eq:
  "load_epoch sd s = (r, s', t) \<longleftrightarrow>
     t = [] \<and>
     (case epoch_value sd of
        None \<Rightarrow> r = Inl (KeyError ''epoch'') \<and> s' = s
      | Some n \<Rightarrow> r = Inr () \<and> s' = s\<lparr>epoch := n\<rparr>)"
  by (auto simp: load_epoch_def raisep_def stmt_def split: option.splits)

lemma load_state_dict_foldr:
  "load_state_dict c sd =
     foldr (\<lambda>name. thenp (load_collaborator c sd name)) collaborator_names (load_epoch sd)"
  by (simp add: load_state_dict_def collaborator_names_def)

text \<open>
  A sequence of restores: the calls made, \<open>rs\<close> how they ended, \<open>s1\<close> the state after the
  last of them. Either one of them failed and the sequence ends there, or all returned
  and \<open>fin\<close> runs from \<open>s1\<close>.
\<close>

lemma load_sequence:
  "foldr (\<lambda>name. thenp (load_collaborator c sd name)) names fin s = (r, s', t) \<Longrightarrow>
     \<exists>rs s1 t2.
        length rs \<le> length names
      \<and> list_all (\<lambda>name. collaborator_states sd name \<noteq> None) (take (length rs) names)
      \<and> t = map (\<lambda>(name, r). LoadStateDict name (the (collaborator_states sd name)) r)
                (zip names rs) @ t2
      \<and> epoch s1 = epoch s
      \<and> replay c ep (map (\<lambda>(name, r). LoadStateDict name (the (collaborator_states sd name)) r)
                        (zip names rs)) (model_training s, world s)
          = Some (model_training s1, world s1)
      \<and> ((\<exists>e. r = Inl e \<and> s' = s1 \<and> t2 = [] \<and> rs \<noteq> replicate (length names) (Inr ())) \<or>
         (rs = replicate (length names) (Inr ()) \<and> fin s1 = (r, s', t2)))"
proof (induction names arbitrary: s t)
  case Nil
  show ?case
    by (rule exI[of _ "[]"], rule exI[of _ s], rule exI[of _ t]) (use Nil in simp)
next
  case (Cons name names)
  let ?rest = "foldr (\<lambda>name. thenp (load_collaborator c sd name)) names fin"
  let ?ev = "\<lambda>(name, r). LoadStateDict name (the (collaborator_states sd name)) r"
  from Cons.prems have p: "thenp (load_collaborator c sd name) ?rest s = (r, s', t)"
    by simp
  obtain r1 s1 t1 where l: "load_collaborator c sd name s = (r1, s1, t1)"
    by (cases "load_collaborator c sd name s") auto
  show ?case
  proof (cases r1)
    case (Inl e)
    have "thenp (load_collaborator c sd name) ?rest s = (Inl e, s1, t1)"
      by (rule thenp_after_Inl) (use l Inl in simp)
    with p have res: "r = Inl e" "s' = s1" "t = t1"
      by simp_all
    from l Inl consider
        (key) "collaborator_states sd name = None" "s1 = s" "t1 = []"
      | (call) v b w where "collaborator_states sd name = Some v"
          "load_state c name v (model_training s, world s) = (Inl e, b, w)"
          "s1 = s\<lparr>model_training := b, world := w\<rparr>"
          "t1 = [LoadStateDict name v (Inl e)]"
      by (auto simp: load_collaborator_eq)
    then show ?thesis
    proof cases
      case key
      show ?thesis
        by (rule exI[of _ "[]"], rule exI[of _ s], rule exI[of _ "[]"]) (use key res in simp)
    next
      case call
      show ?thesis
        by (rule exI[of _ "[Inl e]"], rule exI[of _ s1], rule exI[of _ "[]"])
           (use call res in \<open>simp add: replay_event_def check_def\<close>)
    qed
  next
    case (Inr u)
    with l obtain v b w where
        v: "collaborator_states sd name = Some v"
          "load_state c name v (model_training s, world s) = (Inr (), b, w)"
          "s1 = s\<lparr>model_training := b, world := w\<rparr>"
          "t1 = [LoadStateDict name v (Inr ())]"
      by (auto simp: load_collaborator_eq)
    have "thenp (load_collaborator c sd name) ?rest s
        = (case ?rest s1 of (r, s2, t2) \<Rightarrow> (r, s2, t1 @ t2))"
      by (rule thenp_after_Inr) (use l Inr in simp)
    with p obtain t' where
        rest: "?rest s1 = (r, s', t')"
        and t: "t = t1 @ t'"
      by (auto split: prod.splits)
    from Cons.IH[OF rest] obtain rs s2 t2 where ih:
        "length rs \<le> length names"
        "list_all (\<lambda>name. collaborator_states sd name \<noteq> None) (take (length rs) names)"
        "t' = map ?ev (zip names rs) @ t2"
        "epoch s2 = epoch s1"
        "replay c ep (map ?ev (zip names rs)) (model_training s1, world s1)
          = Some (model_training s2, world s2)"
        "(\<exists>e. r = Inl e \<and> s' = s2 \<and> t2 = [] \<and> rs \<noteq> replicate (length names) (Inr ())) \<or>
          (rs = replicate (length names) (Inr ()) \<and> fin s2 = (r, s', t2))"
      by blast
    show ?thesis
      by (rule exI[of _ "Inr () # rs"], rule exI[of _ s2], rule exI[of _ t2])
         (use ih v t in \<open>auto simp: replay_event_def check_def\<close>)
  qed
qed

text \<open>
  C7. \<open>state_dict()\<close> is a mapping with exactly the keys \<open>model\<close>, \<open>optimizer\<close>,
  \<open>value_store\<close>, \<open>train_evaluator\<close>, \<open>val_evaluator\<close>, \<open>callback\<close> and \<open>epoch\<close>; under the
  key of a collaborator stands that collaborator's own serialized state, under \<open>epoch\<close>
  the counter. \<open>load_state_dict\<close> calls \<open>load_state_dict\<close> of the collaborators, in that
  order, each with the value under its own key, and stops at the first key that is
  missing or call that raises: its events are these calls, made one after the other on
  the collaborators of the trainer. It returns exactly when all six calls were made and
  returned and the key \<open>epoch\<close> is there, and then \<open>epoch\<close> is the integer under that key,
  assigned after the six calls; whenever it raises, \<open>epoch\<close> is what it was.
\<close>

theorem checkpoint_contract:
  assumes "load_state_dict c sd s0 = (r, s', t)"
  shows "keys (state_dict c s) =
           {''model'', ''optimizer'', ''value_store'', ''train_evaluator'', ''val_evaluator'',
            ''callback'', ''epoch''}
       \<and> list_all (\<lambda>name. collaborator_states (state_dict c s) name
                           = Some (save_state c name (world s)))
           collaborator_names
       \<and> epoch_value (state_dict c s) = Some (epoch s)
       \<and> (\<exists>rs. length rs \<le> length collaborator_names
             \<and> list_all (\<lambda>name. collaborator_states sd name \<noteq> None)
                 (take (length rs) collaborator_names)
             \<and> t = map (\<lambda>(name, r). LoadStateDict name (the (collaborator_states sd name)) r)
                       (zip collaborator_names rs)
             \<and> (r = Inr ()) = (rs = replicate (length collaborator_names) (Inr ())
                                \<and> epoch_value sd \<noteq> None))
       \<and> replay c (epoch s0) t (model_training s0, world s0) = Some (model_training s', world s')
       \<and> (case r of
             Inl e \<Rightarrow> epoch s' = epoch s0
           | Inr _ \<Rightarrow> epoch_value sd = Some (epoch s'))"
proof -
  let ?ev = "\<lambda>(name, r). LoadStateDict name (the (collaborator_states sd name)) r"
  have a: "keys (state_dict c s) =
           {''model'', ''optimizer'', ''value_store'', ''train_evaluator'', ''val_evaluator'',
            ''callback'', ''epoch''}"
    by (simp add: keys_def state_dict_def insert_commute)
  have b: "list_all (\<lambda>name. collaborator_states (state_dict c s) name
                           = Some (save_state c name (world s)))
      collaborator_names"
    by (simp add: state_dict_def collaborator_names_def)
  have c: "epoch_value (state_dict c s) = Some (epoch s)"
    by (simp add: state_dict_def)
  from assms have "foldr (\<lambda>name. thenp (load_collaborator c sd name)) collaborator_names
      (load_epoch sd) s0 = (r, s', t)"
    by (simp add: load_state_dict_foldr)
  from load_sequence[OF this, of "epoch s0"] obtain rs s1 t2 where seq:
      "length rs \<le> length collaborator_names"
      "list_all (\<lambda>name. collaborator_states sd name \<noteq> None) (take (length rs) collaborator_names)"
      "t = map ?ev (zip collaborator_names rs) @ t2"
      "epoch s1 = epoch s0"
      "replay c (epoch s0) (map ?ev (zip collaborator_names rs)) (model_training s0, world s0)
        = Some (model_training s1, world s1)"
      "(\<exists>e. r = Inl e \<and> s' = s1 \<and> t2 = []
          \<and> rs \<noteq> replicate (length collaborator_names) (Inr ())) \<or>
        (rs = replicate (length collaborator_names) (Inr ()) \<and> load_epoch sd s1 = (r, s', t2))"
    by blast
  have d: "t2 = []
      \<and> model_training s' = model_training s1 \<and> world s' = world s1
      \<and> (r = Inr ()) = (rs = replicate (length collaborator_names) (Inr ())
                          \<and> epoch_value sd \<noteq> None)
      \<and> (case r of
            Inl e \<Rightarrow> epoch s' = epoch s0
          | Inr _ \<Rightarrow> epoch_value sd = Some (epoch s'))"
    using seq(6)
  proof
    assume "\<exists>e. r = Inl e \<and> s' = s1 \<and> t2 = []
        \<and> rs \<noteq> replicate (length collaborator_names) (Inr ())"
    with seq(4) show ?thesis by auto
  next
    assume "rs = replicate (length collaborator_names) (Inr ()) \<and> load_epoch sd s1 = (r, s', t2)"
    with seq(4) show ?thesis
      by (auto simp: load_epoch_eq split: option.splits sum.splits)
  qed
  from d seq(3) have t: "t = map ?ev (zip collaborator_names rs)"
    by simp
  from d seq(5) t have calls:
      "replay c (epoch s0) t (model_training s0, world s0) = Some (model_training s', world s')"
    by simp
  from d have e: "case r of
        Inl e \<Rightarrow> epoch s' = epoch s0
      | Inr _ \<Rightarrow> epoch_value sd = Some (epoch s')"
    by simp
  from d have i: "(r = Inr ()) = (rs = replicate (length collaborator_names) (Inr ())
                          \<and> epoch_value sd \<noteq> None)"
    by simp
  from seq(1,2) t i have "\<exists>rs. length rs \<le> length collaborator_names
             \<and> list_all (\<lambda>name. collaborator_states sd name \<noteq> None)
                 (take (length rs) collaborator_names)
             \<and> t = map ?ev (zip collaborator_names rs)
             \<and> (r = Inr ()) = (rs = replicate (length collaborator_names) (Inr ())
                                \<and> epoch_value sd \<noteq> None)"
    by blast
  with a b c calls e show ?thesis
    by (intro conjI)
qed

theorem checkpoint_contract_witness:
  "(case load_state_dict demo
          (state_dict demo \<lparr>model_training = False, epoch = 7,
              world = \<lparr>w_model = 12, w_optimizer = 3, w_value_store = 4, w_train_evaluator = 4,
                        w_val_evaluator = 9, w_callback = 40\<rparr>\<rparr>)
          (Trainer_init True demo_world0) of
      (r, s', t) \<Rightarrow>
        r = Inr () \<and> epoch s' = 7 \<and> length t = 6
        \<and> world s' = \<lparr>w_model = 12, w_optimizer = 3, w_value_store = 4, w_train_evaluator = 4,
                        w_val_evaluator = 9, w_callback = 40\<rparr>)
   \<and> (case load_state_dict demo
          ((state_dict demo \<lparr>model_training = False, epoch = 7,
              world = \<lparr>w_model = 12, w_optimizer = 3, w_value_store = 4, w_train_evaluator = 4,
                        w_val_evaluator = 9, w_callback = 40\<rparr>\<rparr>)
             \<lparr>collaborator_states := [''model'' \<mapsto> 12, ''optimizer'' \<mapsto> 3]\<rparr>)
          (Trainer_init True demo_world0) of
      (r, s', t) \<Rightarrow>
        r = Inl (KeyError ''value_store'') \<and> epoch s' = - 1 \<and> length t = 2
        \<and> world s' = demo_world0\<lparr>w_model := 12, w_optimizer := 3\<rparr>)"
proof -
  let ?w = "\<lparr>w_model = 12, w_optimizer = 3, w_value_store = 4, w_train_evaluator = 4,
             w_val_evaluator = 9, w_callback = 40\<rparr>"
  let ?sd = "state_dict demo \<lparr>model_training = False, epoch = 7, world = ?w\<rparr>"
  let ?sd2 = "?sd\<lparr>collaborator_states := [''model'' \<mapsto> 12, ''optimizer'' \<mapsto> 3]\<rparr>"
  let ?s0 = "Trainer_init True demo_world0 :: demo_world trainer"
  define run where "run = load_state_dict demo ?sd ?s0"
  define run2 where "run2 = load_state_dict demo ?sd2 ?s0"
  note ev = load_state_dict_def load_collaborator_def load_epoch_def subscript_def
        state_dict_def bindp_def thenp_def returnp_def raisep_def invoke_def stmt_def demo_def
        demo_load_def demo_save_def demo_world0_def Trainer_init_def
  have f: "load_state_dict demo ?sd ?s0 = (fst run, fst (snd run), snd (snd run))"
    unfolding run_def by simp
  have f2: "load_state_dict demo ?sd2 ?s0 = (fst run2, fst (snd run2), snd (snd run2))"
    unfolding run2_def by simp
  have r: "fst run = Inr ()" "length (snd (snd run)) = 6"
    unfolding run_def by (simp_all add: ev)
  have r2: "fst run2 = Inl (KeyError ''value_store'')" "length (snd (snd run2)) = 2"
    unfolding run2_def by (simp_all add: ev)
  note loaded = checkpoint_contract[OF f, THEN conjunct2, THEN conjunct2, THEN conjunct2,
      THEN conjunct2]
  note loaded2 = checkpoint_contract[OF f2, THEN conjunct2, THEN conjunct2, THEN conjunct2,
      THEN conjunct2]
  from loaded r(1) have e: "epoch (fst (snd run)) = 7"
    and w: "replay demo (epoch ?s0) (snd (snd run)) (model_training ?s0, world ?s0)
        = Some (model_training (fst (snd run)), world (fst (snd run)))"
    by (simp_all add: state_dict_def)
  from loaded2 r2(1) have e2: "epoch (fst (snd run2)) = - 1"
    and w2: "replay demo (epoch ?s0) (snd (snd run2)) (model_training ?s0, world ?s0)
        = Some (model_training (fst (snd run2)), world (fst (snd run2)))"
    by (simp_all add: Trainer_init_def)
  have "world (fst (snd run)) = ?w"
    unfolding run_def by (simp add: ev)
  moreover have "world (fst (snd run2)) = demo_world0\<lparr>w_model := 12, w_optimizer := 3\<rparr>"
    unfolding run2_def by (simp add: ev)
  ultimately show ?thesis
    using r r2 e e2 unfolding run_def run2_def by (simp add: case_prod_beta)
qed

section \<open>Checkpoints: the round trip\<close>

lemma train_epochs_append: "train_epochs (a @ b) = train_epochs a @ train_epochs b"
  by (induction a) (simp_all split: event.splits)

lemma train_epochs_none:
  "list_all no_train_epoch_start t \<Longrightarrow> train_epochs t = []"
  by (induction t) (auto simp: no_train_epoch_start_def split: event.splits)

lemma no_start_train_batch: "emits no_train_epoch_start (train_batch c i b)"
  unfolding train_batch_def
  by (intro emits_bindp emits_thenp emits_no_grad emits_invoke emits_emit)
     (simp_all add: no_train_epoch_start_def)

lemma no_start_train_batches: "emits no_train_epoch_start (train_batches c nbs)"
  by (induction nbs) (simp_all add: emits_returnp emits_thenp no_start_train_batch)

lemma no_start_validate: "emits no_train_epoch_start (validate c)"
  unfolding validate_def
  by (intro emits_bindp emits_thenp emits_stmt emits_no_grad emits_invoke emits_emit)
     (simp_all add: model_eval_def no_train_epoch_start_def)

lemma no_start_fit_handler: "emits no_train_epoch_start (fit_handler c out e)"
  unfolding fit_handler_def
  by (intro emits_if emits_thenp emits_returnp emits_raisep
        emits_emit[where e="\<lambda>_. e" for e])
     (simp_all add: no_train_epoch_start_def)

lemma no_start_fit_finish: "emits no_train_epoch_start (fit_finish c k out)"
  unfolding fit_finish_def
  by (intro emits_bindp emits_thenp emits_returnp emits_emit
        emits_invoke[where ev="\<lambda>_. ev" and h="\<lambda>_. h" for ev h])
     (simp_all add: no_train_epoch_start_def)

text \<open>
  The training phase calls \<open>train_evaluator.epoch_start\<close> at most once, with the trainer's
  epoch, and exactly once when it runs to its end.
\<close>

lemma train_train_epochs:
  assumes "train c dl s = (r, s', t)"
  shows "train_epochs t = [] \<or> train_epochs t = [epoch s]"
    and "r = Inr () \<Longrightarrow> train_epochs t = [epoch s]"
proof -
  define rest where "rest =
     thenp (train_batches c (enumerate 0 dl))
    (thenp (\<lambda>s. invoke (TrainEpochEnd (epoch s)) (train_epoch_end c (epoch s)) s)
    (bindp (invoke TrainGetTrackedValues (train_get_tracked_values c))
      (\<lambda>tracked.
     emit c (OnEpochTrainEnd (\<lambda>name. map_option current_value (tracked name))))))"
  have e: "emits no_train_epoch_start rest"
    unfolding rest_def
    by (intro emits_bindp emits_thenp no_start_train_batches emits_emit[where e="\<lambda>_. e" for e]
          emits_invoke emits_invoke[where ev="\<lambda>_. ev" and h="\<lambda>_. h" for ev h])
     (simp_all add: no_train_epoch_start_def)
  have rest: "train_epochs t2 = []" if "rest s2 = (r2, s3, t2)" for s2 r2 s3 t2
    by (rule train_epochs_none) (rule emitsD[OF e that])
  have tr: "train c dl =
     thenp (stmt (model_train True))
    (thenp (emit c (OnEpochTrainStart (length dl)))
    (thenp (\<lambda>s. invoke (TrainEpochStart (epoch s)) (train_epoch_start c (epoch s)) s) rest))"
    by (simp add: train_def rest_def)
  from assms show "train_epochs t = [] \<or> train_epochs t = [epoch s]"
    unfolding tr
    by (cases r)
       (auto simp: thenp_Inl thenp_Inr stmt_eq emit_eq invoke_eq model_train_def
          train_epochs_append dest: rest)
  from assms show "train_epochs t = [epoch s]" if "r = Inr ()"
    using that unfolding tr
    by (auto simp: thenp_Inr stmt_eq emit_eq invoke_eq model_train_def
          train_epochs_append dest: rest)
qed

lemma epoch_body_train_epochs:
  assumes "epoch_body c dl ve s = (r, s', t)"
  shows "train_epochs t = [] \<or> train_epochs t = [epoch s + 1]"
    and "r = Inr () \<Longrightarrow> train_epochs t = [epoch s + 1]"
proof -
  define tail where "tail =
      bindp (\<lambda>s. (py_mod (epoch s + 1) ve, s, []))
        (\<lambda>r. thenp (if r = 0 then validate c else returnp ()) (emit c OnEpochEnd))"
  have e: "emits no_train_epoch_start tail"
    unfolding tail_def
    by (intro emits_bindp emits_thenp emits_if emits_returnp emits_pure no_start_validate
          emits_emit[where e="\<lambda>_. e" for e])
     (simp_all add: no_train_epoch_start_def)
  have tail: "train_epochs t2 = []" if "tail s2 = (r2, s3, t2)" for s2 r2 s3 t2
    by (rule train_epochs_none) (rule emitsD[OF e that])
  have b: "epoch_body c dl ve =
     thenp (stmt (\<lambda>s. (s\<lparr>epoch := epoch s + 1\<rparr>, [])))
    (thenp (emit c OnEpochStart) (thenp (train c dl) tail))"
    by (simp add: epoch_body_def tail_def)
  from assms show "train_epochs t = [] \<or> train_epochs t = [epoch s + 1]"
    unfolding b
    by (cases r)
       (auto simp: thenp_Inl thenp_Inr stmt_eq emit_eq train_epochs_append
          dest: tail dest!: train_train_epochs(1))
  from assms show "train_epochs t = [epoch s + 1]" if "r = Inr ()"
    using that unfolding b
    by (auto simp: thenp_Inr stmt_eq emit_eq train_epochs_append
          dest: tail dest!: train_train_epochs(2)[OF _ refl])
qed

lemma epoch_loop_train_epochs:
  "epoch_loop c dl ve k s = (r, s', t) \<Longrightarrow>
     (\<exists>j\<le>k. train_epochs t = [epoch s + 1 .. epoch s + int j])
     \<and> (r = Inr () \<longrightarrow> train_epochs t = [epoch s + 1 .. epoch s + int k])"
proof (induction k arbitrary: s t)
  case 0
  then have "train_epochs t = [epoch s + 1 .. epoch s + int 0]"
    by (simp add: returnp_eq)
  then show ?case by blast
next
  case (Suc k)
  obtain r1 s1 t1 where b: "epoch_body c dl ve s = (r1, s1, t1)"
    by (cases "epoch_body c dl ve s") auto
  have one: "[epoch s + 1 .. epoch s + int j] = (epoch s + 1) # [epoch s + 1 + 1 .. epoch s + int j]"
    if "0 < j" for j
    by (rule upto_rec1) (use that in simp)
  show ?case
  proof (cases r1)
    case (Inl e)
    have "thenp (epoch_body c dl ve) (epoch_loop c dl ve k) s = (Inl e, s1, t1)"
      by (rule thenp_after_Inl) (use b Inl in simp)
    with Suc.prems have res: "r = Inl e" "t = t1"
      by simp_all
    from epoch_body_train_epochs(1)[OF b]
    have "train_epochs t1 = [epoch s + 1 .. epoch s + int 0]
        \<or> train_epochs t1 = [epoch s + 1 .. epoch s + int 1]"
      by (simp add: one)
    then have "\<exists>j\<le>Suc k. train_epochs t1 = [epoch s + 1 .. epoch s + int j]"
      by (metis le0 Suc_le_mono One_nat_def)
    with res show ?thesis by simp
  next
    case (Inr u)
    with b have b': "epoch_body c dl ve s = (Inr (), s1, t1)" by simp
    have "thenp (epoch_body c dl ve) (epoch_loop c dl ve k) s
        = (case epoch_loop c dl ve k s1 of (r, s2, t2) \<Rightarrow> (r, s2, t1 @ t2))"
      by (rule thenp_after_Inr) (rule b')
    with Suc.prems obtain t2 where
        l: "epoch_loop c dl ve k s1 = (r, s', t2)" and t: "t = t1 @ t2"
      by (auto split: prod.splits)
    from epoch_body_train_epochs(2)[OF b' refl] have t1: "train_epochs t1 = [epoch s + 1]" .
    from epoch_body_Inr(1)[OF b'] have s1: "epoch s1 = epoch s + 1" .
    have shift: "train_epochs t = [epoch s + 1 .. epoch s + int (Suc j)]"
      if "train_epochs t2 = [epoch s1 + 1 .. epoch s1 + int j]" for j
    proof -
      have "epoch s1 + int j = epoch s + int (Suc j)"
        by (simp add: s1)
      with that have "train_epochs t2 = [epoch s + 1 + 1 .. epoch s + int (Suc j)]"
        by (simp only: s1)
      then show ?thesis
        by (simp only: t train_epochs_append t1 one[of "Suc j", OF zero_less_Suc] append_Cons
            append_Nil)
    qed
    from Suc.IH[OF l] obtain j where
        j: "j \<le> k" "train_epochs t2 = [epoch s1 + 1 .. epoch s1 + int j]"
        and full: "r = Inr () \<longrightarrow> train_epochs t2 = [epoch s1 + 1 .. epoch s1 + int k]"
      by blast
    from shift[OF j(2)] j(1) have "\<exists>j\<le>Suc k. train_epochs t = [epoch s + 1 .. epoch s + int j]"
      by (metis Suc_le_mono)
    moreover from full shift have "r = Inr () \<longrightarrow> train_epochs t = [epoch s + 1 .. epoch s + int (Suc k)]"
      by blast
    ultimately show ?thesis by blast
  qed
qed

lemma fit_guarded_train_epochs:
  assumes "fit_guarded c dl n ve s = (r, s', t)"
  shows "\<exists>j\<le>nat n. train_epochs t = [epoch s + 1 .. epoch s + int j]"
    and "r = Inr () \<Longrightarrow> train_epochs t = [epoch s + 1 .. epoch s + n]"
proof -
  have up: "[epoch s + 1 .. epoch s + int (nat n)] = [epoch s + 1 .. epoch s + n]"
    by (cases "0 \<le> n") simp_all
  have zero: "\<exists>j\<le>nat n. [] = [epoch s + 1 .. epoch s + int j]"
    by (rule exI[of _ 0]) simp
  from assms consider
      (first) "train_epochs t = []" "r \<noteq> Inr ()"
    | (loop) s2 t2 where "epoch_loop c dl ve (nat n) s2 = (r, s', t2)" "epoch s2 = epoch s"
        "train_epochs t = train_epochs t2"
    by (cases r)
       (auto simp: fit_guarded_def thenp_Inl thenp_Inr emit_eq invoke_eq train_epochs_append)
  then have "(\<exists>j\<le>nat n. train_epochs t = [epoch s + 1 .. epoch s + int j])
      \<and> (r = Inr () \<longrightarrow> train_epochs t = [epoch s + 1 .. epoch s + n])"
  proof cases
    case first
    with zero show ?thesis by simp
  next
    case loop
    from epoch_loop_train_epochs[OF loop(1)] loop(2,3) up show ?thesis
      by simp
  qed
  then show "\<exists>j\<le>nat n. train_epochs t = [epoch s + 1 .. epoch s + int j]"
    and "r = Inr () \<Longrightarrow> train_epochs t = [epoch s + 1 .. epoch s + n]"
    by simp_all
qed

text \<open>
  The epochs \<open>fit\<close> trains for, however it ends, are \<open>epoch + 1\<close>, \<open>epoch + 2\<close>, ... in this
  order, at most \<open>num_epochs\<close> of them; all of them when it returns and recorded no
  exception.
\<close>

lemma fit_train_epochs:
  assumes "fit c dl n ve s = (r, s', t)"
  shows "\<exists>j\<le>nat n. train_epochs t = [epoch s + 1 .. epoch s + int j]"
    and "r = Inr out \<Longrightarrow> exception out = None \<Longrightarrow>
          train_epochs t = [epoch s + 1 .. epoch s + n] \<and> epoch s' = epoch s + int (nat n)"
proof -
  obtain r1 s1 t1 where g: "fit_guarded c dl n ve s = (r1, s1, t1)"
    by (cases "fit_guarded c dl n ve s") auto
  have fin: "train_epochs t3 = []" if "fit_finish c k out0 s2 = (r3, s3, t3)" for k out0 s2 r3 s3 t3
    by (rule train_epochs_none) (rule emitsD[OF no_start_fit_finish that])
  have han: "train_epochs t3 = []" if "fit_handler c out0 e s2 = (r3, s3, t3)" for out0 e s2 r3 s3 t3
    by (rule train_epochs_none) (rule emitsD[OF no_start_fit_handler that])
  have "train_epochs t = train_epochs t1"
  proof (cases r1)
    case (Inl e)
    with g have g': "fit_guarded c dl n ve s = (Inl e, s1, t1)" by simp
    from assms show ?thesis
      by (auto simp: fit_after_Inl[OF g'] train_epochs_append split: prod.splits sum.splits
          dest: fin han)
  next
    case (Inr u)
    with g have g': "fit_guarded c dl n ve s = (Inr (), s1, t1)" by simp
    from assms show ?thesis
      by (auto simp: fit_after_Inr[OF g'] train_epochs_append split: prod.splits dest: fin)
  qed
  with fit_guarded_train_epochs(1)[OF g]
  show "\<exists>j\<le>nat n. train_epochs t = [epoch s + 1 .. epoch s + int j]"
    by simp
  show "train_epochs t = [epoch s + 1 .. epoch s + n] \<and> epoch s' = epoch s + int (nat n)"
    if "r = Inr out" "exception out = None"
  proof -
    from assms that have f: "fit c dl n ve s = (Inr out, s', t)" by simp
    from fit_complete[OF f that(2)] obtain s2 t2 tv vv where
        g2: "fit_guarded c dl n ve s = (Inr (), s2, t2)" and e: "epoch s' = epoch s2"
        and t: "t = t2 @ [ModelTrain (model_training s), TrainGetTrackedValues (Inr tv),
                          ValGetTrackedValues (Inr vv),
                          Callback (OnFitEnd (epoch s2 - epoch s) out) (Inr ())]"
      by blast
    from fit_guarded_train_epochs(2)[OF g2 refl] fit_guarded_Inr(1)[OF g2] e t show ?thesis
      by (simp add: train_epochs_append)
  qed
qed

lemma restore_sequence:
  assumes inverse: "\<And>name b w w0. name \<in> set collaborator_names \<Longrightarrow>
      \<exists>b' w'. load_state c name (save_state c name w0) (b, w) = (Inr (), b', w')
         \<and> save_state c name w' = save_state c name w0
         \<and> (\<forall>other \<in> set collaborator_names. other \<noteq> name \<longrightarrow>
               save_state c other w' = save_state c other w)"
  shows "set names \<subseteq> set collaborator_names \<Longrightarrow> distinct names \<Longrightarrow>
     (\<forall>name \<in> set names. collaborator_states sd name = Some (save_state c name w0)) \<Longrightarrow>
     \<exists>b1 w1 t1.
        foldr (\<lambda>name. thenp (load_collaborator c sd name)) names fin s
          = (case fin (s\<lparr>model_training := b1, world := w1\<rparr>) of (r, s', t2) \<Rightarrow> (r, s', t1 @ t2))
      \<and> (\<forall>name \<in> set names. save_state c name w1 = save_state c name w0)
      \<and> (\<forall>other \<in> set collaborator_names - set names.
            save_state c other w1 = save_state c other (world s))"
proof (induction names arbitrary: s)
  case Nil
  show ?case
    by (rule exI[of _ "model_training s"], rule exI[of _ "world s"], rule exI[of _ "[]"])
       (simp split: prod.splits)
next
  case (Cons name names)
  let ?rest = "foldr (\<lambda>name. thenp (load_collaborator c sd name)) names fin"
  from Cons.prems have mem: "name \<in> set collaborator_names"
    and sd: "collaborator_states sd name = Some (save_state c name w0)"
    and notin: "name \<notin> set names"
    by simp_all
  from inverse[OF mem, of w0 "model_training s" "world s"] obtain b' w' where
      l: "load_state c name (save_state c name w0) (model_training s, world s) = (Inr (), b', w')"
      and same: "save_state c name w' = save_state c name w0"
      and others: "\<And>other. other \<in> set collaborator_names \<Longrightarrow> other \<noteq> name \<Longrightarrow>
            save_state c other w' = save_state c other (world s)"
    by blast
  let ?s1 = "s\<lparr>model_training := b', world := w'\<rparr>"
  have lc: "load_collaborator c sd name s
      = (Inr (), ?s1, [LoadStateDict name (save_state c name w0) (Inr ())])"
    using sd l by (simp add: load_collaborator_eq)
  have step: "thenp (load_collaborator c sd name) ?rest s
      = (case ?rest ?s1 of
           (r, s2, t2) \<Rightarrow> (r, s2, [LoadStateDict name (save_state c name w0) (Inr ())] @ t2))"
    by (rule thenp_after_Inr) (rule lc)
  from Cons.prems have "set names \<subseteq> set collaborator_names" "distinct names"
      "\<forall>name \<in> set names. collaborator_states sd name = Some (save_state c name w0)"
    by simp_all
  from Cons.IH[OF this, of ?s1] obtain b1 w1 t1 where
      ih: "?rest ?s1
          = (case fin (s\<lparr>model_training := b1, world := w1\<rparr>) of (r, s', t2) \<Rightarrow> (r, s', t1 @ t2))"
      and ih_in: "\<And>n. n \<in> set names \<Longrightarrow> save_state c n w1 = save_state c n w0"
      and ih_out: "\<And>other. other \<in> set collaborator_names \<Longrightarrow> other \<notin> set names \<Longrightarrow>
            save_state c other w1 = save_state c other w'"
    by auto
  have "foldr (\<lambda>name. thenp (load_collaborator c sd name)) (name # names) fin s
      = (case fin (s\<lparr>model_training := b1, world := w1\<rparr>) of
           (r, s', t2) \<Rightarrow>
             (r, s', (LoadStateDict name (save_state c name w0) (Inr ()) # t1) @ t2))"
    by (simp add: step ih split: prod.splits)
  moreover have "\<forall>n \<in> set (name # names). save_state c n w1 = save_state c n w0"
    using ih_in ih_out[OF mem notin] same by auto
  moreover have "\<forall>other \<in> set collaborator_names - set (name # names).
      save_state c other w1 = save_state c other (world s)"
    using ih_out others by auto
  ultimately show ?case
    by blast
qed

text \<open>
  C8 (as amended). Let every collaborator keep the contract the spec asks of it:
  restoring a state it serialized returns, makes its serialized state the one restored,
  and leaves the serialized states of the other collaborators alone; and let the six
  serialized states be all there is to the state of the collaborators. Then
  \<open>load_state_dict(state_dict())\<close>, on the trainer itself or on any other trainer over
  these collaborators, returns and leaves a trainer with the captured epoch counter and
  the captured state of every collaborator. The next call of \<open>fit\<close> on it resumes from
  \<open>epoch + 1\<close>: however it ends, the epochs it trains for are \<open>epoch + 1\<close>, \<open>epoch + 2\<close>, ...
  for the captured \<open>epoch\<close>, and all of them up to \<open>epoch + num_epochs\<close> when it returns
  and recorded no exception. The mode of the model is not in the checkpoint: when it is
  after the load what it was at capture, the trainer is the one that was captured, and
  any call of \<open>fit\<close> on it does and returns what it would on the captured trainer.
\<close>

theorem checkpoint_round_trip:
  assumes inverse: "\<And>name b w w0. name \<in> set collaborator_names \<Longrightarrow>
      \<exists>b' w'. load_state c name (save_state c name w0) (b, w) = (Inr (), b', w')
         \<and> save_state c name w' = save_state c name w0
         \<and> (\<forall>other \<in> set collaborator_names. other \<noteq> name \<longrightarrow>
               save_state c other w' = save_state c other w)"
    and complete: "\<And>w w'. (\<forall>name \<in> set collaborator_names.
        save_state c name w = save_state c name w') \<Longrightarrow> w = w'"
    and load: "load_state_dict c (state_dict c s) fresh = (r, s', t)"
  shows "r = Inr ()
       \<and> epoch s' = epoch s
       \<and> list_all (\<lambda>name. save_state c name (world s') = save_state c name (world s))
           collaborator_names
       \<and> world s' = world s
       \<and> (\<exists>j\<le>nat n. train_epochs (snd (snd (fit c data_loader n validate_every s')))
                        = [epoch s + 1 .. epoch s + int j])
       \<and> (\<forall>out. fst (fit c data_loader n validate_every s') = Inr out \<and> exception out = None \<longrightarrow>
             train_epochs (snd (snd (fit c data_loader n validate_every s')))
               = [epoch s + 1 .. epoch s + n]
             \<and> epoch (fst (snd (fit c data_loader n validate_every s'))) = epoch s + int (nat n))
       \<and> (model_training s' = model_training s \<longrightarrow>
             s' = s
             \<and> fit c data_loader n validate_every s' = fit c data_loader n validate_every s)"
proof -
  let ?sd = "state_dict c s"
  let ?run = "fit c data_loader n validate_every s'"
  have sd: "\<forall>name \<in> set collaborator_names.
      collaborator_states ?sd name = Some (save_state c name (world s))"
    by (simp add: state_dict_def collaborator_names_def)
  have d: "distinct collaborator_names"
    by (simp add: collaborator_names_def)
  from restore_sequence[of c collaborator_names ?sd "world s" "load_epoch ?sd" fresh,
      OF inverse subset_refl d sd]
  obtain b1 w1 t1 where
      run: "foldr (\<lambda>name. thenp (load_collaborator c ?sd name)) collaborator_names
              (load_epoch ?sd) fresh
          = (case load_epoch ?sd (fresh\<lparr>model_training := b1, world := w1\<rparr>) of
               (r, s', t2) \<Rightarrow> (r, s', t1 @ t2))"
      and agree: "\<forall>name \<in> set collaborator_names.
          save_state c name w1 = save_state c name (world s)"
    by blast
  have ep: "load_epoch ?sd (fresh\<lparr>model_training := b1, world := w1\<rparr>)
      = (Inr (), fresh\<lparr>model_training := b1, world := w1, epoch := epoch s\<rparr>, [])"
    by (simp add: load_epoch_eq state_dict_def)
  from load run have "(case load_epoch ?sd (fresh\<lparr>model_training := b1, world := w1\<rparr>) of
      (r, s', t2) \<Rightarrow> (r, s', t1 @ t2)) = (r, s', t)"
    by (simp add: load_state_dict_foldr)
  from this[unfolded ep] have r: "r = Inr ()"
    and s': "s' = fresh\<lparr>model_training := b1, world := w1, epoch := epoch s\<rparr>"
    by simp_all
  from complete[OF agree] have w1: "w1 = world s" .
  from s' w1 have e: "epoch s' = epoch s" and w: "world s' = world s"
    by simp_all
  have f: "fit c data_loader n validate_every s' = (fst ?run, fst (snd ?run), snd (snd ?run))"
    by simp
  from fit_train_epochs(1)[OF f] e
  have some: "\<exists>j\<le>nat n. train_epochs (snd (snd ?run)) = [epoch s + 1 .. epoch s + int j]"
    by simp
  have full: "\<forall>out. fst ?run = Inr out \<and> exception out = None \<longrightarrow>
      train_epochs (snd (snd ?run)) = [epoch s + 1 .. epoch s + n]
      \<and> epoch (fst (snd ?run)) = epoch s + int (nat n)"
    using fit_train_epochs(2)[OF f] e by simp
  have same: "model_training s' = model_training s \<longrightarrow>
      s' = s \<and> fit c data_loader n validate_every s' = fit c data_loader n validate_every s"
  proof
    assume "model_training s' = model_training s"
    with e w have "s' = s"
      by (simp add: trainer.equality)
    then show "s' = s \<and> fit c data_loader n validate_every s' = fit c data_loader n validate_every s"
      by simp
  qed
  from w have l: "list_all (\<lambda>name. save_state c name (world s') = save_state c name (world s))
      collaborator_names"
    by (simp add: list_all_iff)
  from r e l w some full same show ?thesis
    by (intro conjI)
qed

theorem checkpoint_round_trip_witness:
  "(case load_state_dict demo
          (state_dict demo \<lparr>model_training = True, epoch = 7,
              world = \<lparr>w_model = 12, w_optimizer = 3, w_value_store = 4, w_train_evaluator = 4,
                        w_val_evaluator = 9, w_callback = 40\<rparr>\<rparr>)
          (Trainer_init True demo_world0) of
      (r, s', t) \<Rightarrow>
        r = Inr ()
        \<and> s' = \<lparr>model_training = True, epoch = 7,
              world = \<lparr>w_model = 12, w_optimizer = 3, w_value_store = 4, w_train_evaluator = 4,
                        w_val_evaluator = 9, w_callback = 40\<rparr>\<rparr>
        \<and> train_epochs (snd (snd (fit demo [5] 2 1 s'))) = [8, 9]
        \<and> epoch (fst (snd (fit demo [5] 2 1 s'))) = 9)"
proof -
  let ?s = "\<lparr>model_training = True, epoch = 7,
              world = \<lparr>w_model = 12, w_optimizer = 3, w_value_store = 4, w_train_evaluator = 4,
                        w_val_evaluator = 9, w_callback = 40\<rparr>\<rparr>"
  let ?fresh = "Trainer_init True demo_world0 :: demo_world trainer"
  define run where "run = load_state_dict demo (state_dict demo ?s) ?fresh"
  have inverse: "\<exists>b' w'. load_state demo name (save_state demo name w0) (b, w) = (Inr (), b', w')
         \<and> save_state demo name w' = save_state demo name w0
         \<and> (\<forall>other \<in> set collaborator_names. other \<noteq> name \<longrightarrow>
               save_state demo other w' = save_state demo other w)"
    if "name \<in> set collaborator_names" for name b w w0
    using that by (auto simp: collaborator_names_def demo_def demo_load_def demo_save_def)
  have complete: "w = w'"
    if "\<forall>name \<in> set collaborator_names. save_state demo name w = save_state demo name w'"
    for w w'
    using that by (cases w, cases w') (simp add: collaborator_names_def demo_def demo_save_def)
  have load: "load_state_dict demo (state_dict demo ?s) ?fresh
      = (fst run, fst (snd run), snd (snd run))"
    unfolding run_def by simp
  note rt = checkpoint_round_trip[where c = demo and s = ?s and fresh = ?fresh
      and data_loader = "[5]" and n = 2 and validate_every = 1, OF inverse complete load]
  have m: "model_training (fst (snd run)) = model_training ?s"
    unfolding run_def
    by (simp add: load_state_dict_def load_collaborator_def load_epoch_def subscript_def
        state_dict_def bindp_def thenp_def returnp_def invoke_def stmt_def demo_def demo_load_def
        Trainer_init_def)
  from rt m have r: "fst run = Inr ()" and s: "fst (snd run) = ?s"
    by simp_all
  have ok: "isl (fst (fit demo [5] 2 1 ?s)) = False"
      "exception (projr (fst (fit demo [5] 2 1 ?s))) = None"
    by (simp_all add: run_simps epoch_loop_numeral)
  then have "fst (fit demo [5] 2 1 ?s) = Inr (projr (fst (fit demo [5] 2 1 ?s)))
      \<and> exception (projr (fst (fit demo [5] 2 1 ?s))) = None"
    by (simp add: sum.expand)
  with rt[unfolded s] have
      "train_epochs (snd (snd (fit demo [5] 2 1 ?s))) = [epoch ?s + 1 .. epoch ?s + 2]
       \<and> epoch (fst (snd (fit demo [5] 2 1 ?s))) = epoch ?s + int (nat 2)"
    by blast
  then have "train_epochs (snd (snd (fit demo [5] 2 1 ?s))) = [8, 9]"
      "epoch (fst (snd (fit demo [5] 2 1 ?s))) = 9"
    by (simp_all add: upto_rec1)
  with r s show ?thesis
    unfolding run_def by (simp add: case_prod_beta)
qed

theorem mode_not_in_checkpoint_counterexample:
  "(case load_state_dict demo
          (state_dict demo \<lparr>model_training = False, epoch = 7,
              world = \<lparr>w_model = 12, w_optimizer = 3, w_value_store = 4, w_train_evaluator = 4,
                        w_val_evaluator = 9, w_callback = 40\<rparr>\<rparr>)
          (Trainer_init True demo_world0) of
      (r, s', t) \<Rightarrow>
        r = Inr () \<and> epoch s' = 7
        \<and> world s' = \<lparr>w_model = 12, w_optimizer = 3, w_value_store = 4, w_train_evaluator = 4,
                        w_val_evaluator = 9, w_callback = 40\<rparr>
        \<and> model_training s' = True
        \<and> s' \<noteq> \<lparr>model_training = False, epoch = 7,
              world = \<lparr>w_model = 12, w_optimizer = 3, w_value_store = 4, w_train_evaluator = 4,
                        w_val_evaluator = 9, w_callback = 40\<rparr>\<rparr>
        \<and> model_training (fst (snd (fit demo [5] 1 1 s'))) = True
        \<and> model_training (fst (snd (fit demo [5] 1 1
              \<lparr>model_training = False, epoch = 7,
               world = \<lparr>w_model = 12, w_optimizer = 3, w_value_store = 4, w_train_evaluator = 4,
                         w_val_evaluator = 9, w_callback = 40\<rparr>\<rparr>))) = False)"
proof -
  let ?w = "\<lparr>w_model = 12, w_optimizer = 3, w_value_store = 4, w_train_evaluator = 4,
             w_val_evaluator = 9, w_callback = 40\<rparr>"
  have l: "load_state_dict demo (state_dict demo \<lparr>model_training = False, epoch = 7, world = ?w\<rparr>)
        (Trainer_init True demo_world0)
      = (Inr (), \<lparr>model_training = True, epoch = 7, world = ?w\<rparr>,
         [LoadStateDict ''model'' 12 (Inr ()), LoadStateDict ''optimizer'' 3 (Inr ()),
          LoadStateDict ''value_store'' 4 (Inr ()), LoadStateDict ''train_evaluator'' 4 (Inr ()),
          LoadStateDict ''val_evaluator'' 9 (Inr ()), LoadStateDict ''callback'' 40 (Inr ())])"
    by (simp add: load_state_dict_def load_collaborator_def load_epoch_def subscript_def
        state_dict_def bindp_def thenp_def returnp_def invoke_def stmt_def demo_def demo_load_def
        demo_save_def demo_world0_def Trainer_init_def)
  have a: "model_training (fst (snd (fit demo [5] 1 1
      \<lparr>model_training = True, epoch = 7, world = ?w\<rparr>))) = True"
    by (simp add: run_simps epoch_loop_numeral)
  have b: "model_training (fst (snd (fit demo [5] 1 1
      \<lparr>model_training = False, epoch = 7, world = ?w\<rparr>))) = False"
    by (simp add: run_simps epoch_loop_numeral)
  from a b show ?thesis
    unfolding l by simp
qed

section \<open>The constructor of \<open>GroupRMSprop\<close>\<close>

lemma not_float_le_zero: "(\<not> float_le (Finite 0) x) = (float_lt x (Finite 0) \<or> x = NaN)"
  by (cases x) auto

text \<open>
  C9 (as amended). The constructor raises \<open>ValueError\<close> from its own checks exactly when
  one of \<open>lr\<close>, \<open>eps\<close>, \<open>beta\<close>, looked at in this order, is negative or NaN; zero is
  accepted for each. Otherwise it hands the base constructor the parameters and the
  defaults \<open>lr\<close>, \<open>beta\<close>, \<open>eps\<close> and \<open>adjusted_lr = lr\<close>.
\<close>

theorem GroupRMSprop_init_checks:
  "GroupRMSprop_init base_init params lr beta eps =
     (if float_lt lr (Finite 0) \<or> lr = NaN then Inl (ValueError ''Invalid learning rate: '' lr)
      else if float_lt eps (Finite 0) \<or> eps = NaN then Inl (ValueError ''Invalid epsilon value: '' eps)
      else if float_lt beta (Finite 0) \<or> beta = NaN then Inl (ValueError ''Invalid beta value: '' beta)
      else Inr (base_init params \<lparr>d_lr = lr, d_beta = beta, d_eps = eps, d_adjusted_lr = lr\<rparr>))
   \<and> isl (GroupRMSprop_init base_init params lr beta eps) =
       ((float_lt lr (Finite 0) \<or> lr = NaN) \<or> (float_lt eps (Finite 0) \<or> eps = NaN)
        \<or> (float_lt beta (Finite 0) \<or> beta = NaN))
   \<and> GroupRMSprop_init base_init params (Finite 0) (Finite 0) (Finite 0) =
       Inr (base_init params \<lparr>d_lr = Finite 0, d_beta = Finite 0, d_eps = Finite 0,
                              d_adjusted_lr = Finite 0\<rparr>)"
  by (simp add: GroupRMSprop_init_def not_float_le_zero)

theorem GroupRMSprop_init_checks_witness:
  "GroupRMSprop_init (\<lambda>params d. (params, d)) [1 :: nat, 2] (Finite (1 / 100)) (Finite (99 / 100)) (Finite 0)
     = Inr ([1, 2], \<lparr>d_lr = Finite (1 / 100), d_beta = Finite (99 / 100), d_eps = Finite 0,
                      d_adjusted_lr = Finite (1 / 100)\<rparr>)
   \<and> GroupRMSprop_init (\<lambda>params d. (params, d)) [1 :: nat, 2] (Finite (1 / 100)) (Finite (- 1)) (Finite 0)
     = Inl (ValueError ''Invalid beta value: '' (Finite (- 1)))"
  using GroupRMSprop_init_checks[of "\<lambda>params d. (params, d)" "[1 :: nat, 2]" "Finite (1 / 100)"
      "Finite (99 / 100)" "Finite 0"]
    GroupRMSprop_init_checks[of "\<lambda>params d. (params, d)" "[1 :: nat, 2]" "Finite (1 / 100)"
      "Finite (- 1)" "Finite 0"]
  by simp

theorem nan_learning_rate_counterexample:
  "GroupRMSprop_init (\<lambda>params d. (params, d)) [1 :: nat, 2] NaN (Finite (99 / 100)) (Finite (1 / 1000000))
     = Inl (ValueError ''Invalid learning rate: '' NaN)
   \<and> \<not> float_lt NaN (Finite 0)
   \<and> \<not> float_lt (Finite (1 / 1000000)) (Finite 0)
   \<and> \<not> float_lt (Finite (99 / 100)) (Finite 0)"
  by (simp add: GroupRMSprop_init_def)

section \<open>The reduction of \<open>MSELoss\<close>\<close>

text \<open>
  C10. \<open>_calc_metric(y_pred, y)\<close> returns the mean of the squared errors and \<open>len(y)\<close>
  when \<open>reduction\<close> is \<open>"mean"\<close>, and the sum of the squared errors and \<open>len(y)\<close> for every
  other value of \<open>reduction\<close>, \<open>"none"\<close> among them: the first component is always the
  \<open>item()\<close> of a reduced tensor.
\<close>

theorem calc_metric_reduction:
  "(reduction = ''mean'' \<longrightarrow>
      calc_metric ops reduction y_pred y =
        (t_item ops (t_mean ops (t_pow ops (t_sub ops y_pred y) 2)), t_len ops y))
   \<and> (reduction \<noteq> ''mean'' \<longrightarrow>
      calc_metric ops reduction y_pred y =
        (t_item ops (t_sum ops (t_pow ops (t_sub ops y_pred y) 2)), t_len ops y))
   \<and> calc_metric ops ''none'' y_pred y =
        (t_item ops (t_sum ops (t_pow ops (t_sub ops y_pred y) 2)), t_len ops y)"
  by (simp add: calc_metric_def Let_def)

theorem calc_metric_reduction_witness:
  "calc_metric list_ops ''mean'' [1, 2] [0, 0] = (5 / 2, 2)
   \<and> calc_metric list_ops ''sum'' [1, 2] [0, 0] = (5, 2)
   \<and> calc_metric list_ops ''none'' [1, 2] [0, 0] = (5, 2)"
  using calc_metric_reduction[of "''mean''" list_ops "[1, 2]" "[0, 0]"]
    calc_metric_reduction[of "''sum''" list_ops "[1, 2]" "[0, 0]"]
  by (simp add: list_ops_def)

end
